theory Spec2Isabelle
  imports Main
begin

section \<open>Python values, exceptions and the runtime\<close>

text \<open>
  The values that travel through the dispatcher are the ones \<open>json.loads\<close> produces and
  \<open>json.dumps\<close> accepts, plus opaque objects (\<open>PObj\<close>, carried by their type name) that
  \<open>json.dumps\<close> refuses, such as the coroutine object returned by calling an \<open>async def\<close>
  function without awaiting it. A float is carried by its \<open>repr\<close>; no float arithmetic
  occurs in the code modelled here. A \<open>str\<close> is its UTF-8 byte sequence; \<open>bytes\<close> are
  byte sequences as well.
\<close>

datatype pyval =
    PNone
  | PBool bool
  | PInt int
  | PFloat string
  | PStr string
  | PList "pyval list"
  | PDict "(string \<times> pyval) list"
  | PObj string

text \<open>
  Exceptions, carried by class name and \<open>str(e)\<close>. The server's own
  \<open>MCPError(message, code)\<close> (mcp_server.py lines 21-26) and every other class derived
  from \<open>Exception\<close> (\<open>PyException\<close>) are what an \<open>except Exception\<close> clause catches. A
  class derived from \<open>BaseException\<close> only (\<open>PyBaseException\<close>: SystemExit,
  KeyboardInterrupt, asyncio.CancelledError) passes every such clause.
\<close>

datatype py_exn =
    MCPError string int
  | PyException string string
  | PyBaseException string string

fun exn_str :: "py_exn \<Rightarrow> string" where
  "exn_str (MCPError message code) = message"
| "exn_str (PyException cls text) = text"
| "exn_str (PyBaseException cls text) = text"

fun base_only :: "py_exn \<Rightarrow> bool" where
  \<comment> \<open>not an instance of \<open>Exception\<close>\<close>
  "base_only (PyBaseException cls text) = True"
| "base_only e = False"

definition default_mcp_code :: int where
  \<comment> \<open>mcp_server.py line 23: \<open>code: int = -32000\<close>\<close>
  "default_mcp_code = -32000"

datatype level = DEBUG | INFO | WARNING | ERROR

type_synonym log = "(level \<times> string) list"

text \<open>
  What the code takes from the Python runtime and its libraries rather than from this
  repository: \<open>bytes.decode("utf-8")\<close>, \<open>json.loads\<close>, pydantic's validation of the
  response model's \<open>id: Optional[Union[int, str]]\<close> field for a value other than \<open>None\<close>
  (it raises ValidationError or yields an \<open>int\<close> or a \<open>str\<close>),
  \<open>str()\<close> of a value that is not a \<open>str\<close>, and the interpreter's bound on nested calls.
\<close>

datatype id_value = Id_int int | Id_str string

record pyenv =
  decode_utf8 :: "string \<Rightarrow> py_exn + string"
  json_loads :: "string \<Rightarrow> py_exn + pyval"
  validate_id :: "pyval \<Rightarrow> py_exn + id_value"
  py_repr :: "pyval \<Rightarrow> string"
  recursion_limit :: nat

fun py_str :: "pyenv \<Rightarrow> pyval \<Rightarrow> string" where
  "py_str env (PStr s) = s"
| "py_str env v = py_repr env v"

fun type_name :: "pyval \<Rightarrow> string" where
  "type_name PNone = ''NoneType''"
| "type_name (PBool b) = ''bool''"
| "type_name (PInt n) = ''int''"
| "type_name (PFloat r) = ''float''"
| "type_name (PStr s) = ''str''"
| "type_name (PList xs) = ''list''"
| "type_name (PDict kvs) = ''dict''"
| "type_name (PObj t) = t"

fun truthy :: "pyval \<Rightarrow> bool" where
  "truthy PNone = False"
| "truthy (PBool b) = b"
| "truthy (PInt n) = (n \<noteq> 0)"
| "truthy (PFloat r) = (r \<noteq> ''0.0'' \<and> r \<noteq> ''-0.0'')"
| "truthy (PStr s) = (s \<noteq> [])"
| "truthy (PList xs) = (xs \<noteq> [])"
| "truthy (PDict kvs) = (kvs \<noteq> [])"
| "truthy (PObj t) = True"


fun hashable :: "pyval \<Rightarrow> bool" where
  "hashable (PList xs) = False"
| "hashable (PDict kvs) = False"
| "hashable v = True"

definition attribute_error :: "pyval \<Rightarrow> string \<Rightarrow> py_exn" where
  "attribute_error v attr =
     PyException ''AttributeError''
       ([CHR 0x27] @ type_name v @ [CHR 0x27] @ '' object has no attribute '' @
        [CHR 0x27] @ attr @ [CHR 0x27])"

definition unhashable_error :: "pyval \<Rightarrow> py_exn" where
  "unhashable_error v =
     PyException ''TypeError'' (''unhashable type: '' @ [CHR 0x27] @ type_name v @ [CHR 0x27])"

definition recursion_error :: py_exn where
  "recursion_error = PyException ''RecursionError'' ''maximum recursion depth exceeded''"

subsection \<open>Dictionaries\<close>

text \<open>
  A \<open>dict\<close> keeps insertion order; assigning to a key that is present replaces the value
  in place, assigning to a new key appends.
\<close>

fun dict_set :: "('k \<times> 'v) list \<Rightarrow> 'k \<Rightarrow> 'v \<Rightarrow> ('k \<times> 'v) list" where
  "dict_set [] k v = [(k, v)]"
| "dict_set ((k', v') # d) k v = (if k' = k then (k, v) # d else (k', v') # dict_set d k v)"

definition dict_get :: "(string \<times> pyval) list \<Rightarrow> string \<Rightarrow> pyval \<Rightarrow> pyval" where
  \<comment> \<open>\<open>d.get(k, default)\<close> on a dict\<close>
  "dict_get d k dflt = (case map_of d k of None \<Rightarrow> dflt | Some v \<Rightarrow> v)"

definition py_get :: "pyval \<Rightarrow> string \<Rightarrow> pyval \<Rightarrow> py_exn + pyval" where
  \<comment> \<open>\<open>v.get(k, default)\<close> on any value: only a dict has the method\<close>
  "py_get v k dflt =
     (case v of PDict d \<Rightarrow> Inr (dict_get d k dflt) | _ \<Rightarrow> Inl (attribute_error v ''get''))"

definition startswith :: "string \<Rightarrow> string \<Rightarrow> bool" where
  \<comment> \<open>\<open>s.startswith(p)\<close>\<close>
  "startswith s p = (take (length p) s = p)"

subsection \<open>JSON serialisation\<close>

text \<open>
  \<open>json.dumps\<close> raises TypeError at the first object it cannot serialise, walking lists
  and dict values in order. \<open>unserializable\<close> is the type name of that object.
\<close>

fun first_some :: "'a option list \<Rightarrow> 'a option" where
  "first_some [] = None"
| "first_some (None # xs) = first_some xs"
| "first_some (Some x # xs) = Some x"

fun unserializable :: "pyval \<Rightarrow> string option" where
  "unserializable (PObj t) = Some t"
| "unserializable (PList xs) = first_some (map unserializable xs)"
| "unserializable (PDict kvs) = first_some (map (\<lambda>kv. unserializable (snd kv)) kvs)"
| "unserializable v = None"

definition not_serializable_error :: "string \<Rightarrow> py_exn" where
  "not_serializable_error t =
     PyException ''TypeError'' (''Object of type '' @ t @ '' is not JSON serializable'')"

section \<open>Message literals of mcp\_server.py\<close>

text \<open>
  The source's message literals are Chinese; each is given here as the UTF-8 bytes of the
  literal in the source file, with the source line and an English gloss.
\<close>

definition msg_empty_request :: string where
  \<comment> \<open>mcp_server.py line 194: invalid empty request\<close>
  "msg_empty_request = [CHR 0xE6, CHR 0x97, CHR 0xA0, CHR 0xE6, CHR 0x95, CHR 0x88, CHR 0xE7,
    CHR 0x9A, CHR 0x84, CHR 0xE7, CHR 0xA9, CHR 0xBA, CHR 0xE8, CHR 0xAF, CHR 0xB7, CHR 0xE6,
    CHR 0xB1, CHR 0x82] "

definition msg_invalid_json :: string where
  \<comment> \<open>mcp_server.py line 199: invalid JSON\<close>
  "msg_invalid_json = [CHR 0xE6, CHR 0x97, CHR 0xA0, CHR 0xE6, CHR 0x95, CHR 0x88, CHR 0xE7,
    CHR 0x9A, CHR 0x84] @ ''JSON'' "

definition msg_invalid_request :: string where
  \<comment> \<open>mcp_server.py line 229: invalid request\<close>
  "msg_invalid_request = [CHR 0xE6, CHR 0x97, CHR 0xA0, CHR 0xE6, CHR 0x95, CHR 0x88, CHR 0xE7,
    CHR 0x9A, CHR 0x84, CHR 0xE8, CHR 0xAF, CHR 0xB7, CHR 0xE6, CHR 0xB1, CHR 0x82] "

definition msg_method_not_found :: string where
  \<comment> \<open>mcp_server.py line 238: method not found, followed by the method\<close>
  "msg_method_not_found = [CHR 0xE6, CHR 0x96, CHR 0xB9, CHR 0xE6, CHR 0xB3, CHR 0x95, CHR 0xE6,
    CHR 0x9C, CHR 0xAA, CHR 0xE6, CHR 0x89, CHR 0xBE, CHR 0xE5, CHR 0x88, CHR 0xB0] @ '': '' "

definition msg_server_internal :: string where
  \<comment> \<open>mcp_server.py line 252: internal server error, followed by str(e)\<close>
  "msg_server_internal = [CHR 0xE6, CHR 0x9C, CHR 0x8D, CHR 0xE5, CHR 0x8A, CHR 0xA1, CHR 0xE5,
    CHR 0x99, CHR 0xA8, CHR 0xE5, CHR 0x86, CHR 0x85, CHR 0xE9, CHR 0x83, CHR 0xA8, CHR 0xE9,
    CHR 0x94, CHR 0x99, CHR 0xE8, CHR 0xAF, CHR 0xAF] @ '': '' "

definition msg_batch_unsupported :: string where
  \<comment> \<open>mcp_server.py line 257: batch requests are not supported\<close>
  "msg_batch_unsupported = [CHR 0xE4, CHR 0xB8, CHR 0x8D, CHR 0xE6, CHR 0x94, CHR 0xAF,
    CHR 0xE6, CHR 0x8C, CHR 0x81, CHR 0xE6, CHR 0x89, CHR 0xB9, CHR 0xE9, CHR 0x87, CHR 0x8F,
    CHR 0xE8, CHR 0xAF, CHR 0xB7, CHR 0xE6, CHR 0xB1, CHR 0x82] "

definition msg_tool_not_found :: string where
  \<comment> \<open>mcp_server.py line 334: tool not found, followed by the tool name\<close>
  "msg_tool_not_found = [CHR 0xE5, CHR 0xB7, CHR 0xA5, CHR 0xE5, CHR 0x85, CHR 0xB7, CHR 0xE6,
    CHR 0x9C, CHR 0xAA, CHR 0xE6, CHR 0x89, CHR 0xBE, CHR 0xE5, CHR 0x88, CHR 0xB0] @ '': '' "

definition msg_tool_call_failed :: string where
  \<comment> \<open>mcp_server.py line 343: tool call failed, followed by str(e)\<close>
  "msg_tool_call_failed = [CHR 0xE5, CHR 0xB7, CHR 0xA5, CHR 0xE5, CHR 0x85, CHR 0xB7, CHR 0xE8,
    CHR 0xB0, CHR 0x83, CHR 0xE7, CHR 0x94, CHR 0xA8, CHR 0xE5, CHR 0xA4, CHR 0xB1, CHR 0xE8,
    CHR 0xB4, CHR 0xA5] @ '': '' "

definition log_mcp_error :: string where
  \<comment> \<open>mcp_server.py line 210\<close>
  "log_mcp_error = ''MCP'' @ [CHR 0xE9, CHR 0x94, CHR 0x99, CHR 0xE8, CHR 0xAF, CHR 0xAF] @
    '': '' "

definition log_code_open :: string where
  \<comment> \<open>mcp_server.py lines 210 and 248: opens the error code\<close>
  "log_code_open = '' ('' @ [CHR 0xE4, CHR 0xBB, CHR 0xA3, CHR 0xE7, CHR 0xA0, CHR 0x81] @
    '': '' "

definition log_uncaught :: string where
  \<comment> \<open>mcp_server.py line 218\<close>
  "log_uncaught = [CHR 0xE5, CHR 0xA4, CHR 0x84, CHR 0xE7, CHR 0x90, CHR 0x86] @ ''JSON-RPC'' @
    [CHR 0xE8, CHR 0xAF, CHR 0xB7, CHR 0xE6, CHR 0xB1, CHR 0x82, CHR 0xE6, CHR 0x97, CHR 0xB6,
    CHR 0xE5, CHR 0x8F, CHR 0x91, CHR 0xE7, CHR 0x94, CHR 0x9F, CHR 0xE6, CHR 0x9C, CHR 0xAA,
    CHR 0xE6, CHR 0x8D, CHR 0x95, CHR 0xE8, CHR 0x8E, CHR 0xB7, CHR 0xE7, CHR 0x9A, CHR 0x84,
    CHR 0xE5, CHR 0xBC, CHR 0x82, CHR 0xE5, CHR 0xB8, CHR 0xB8] @ '': '' "

definition log_request_open :: string where
  \<comment> \<open>mcp_server.py lines 248 and 251\<close>
  "log_request_open = [CHR 0xE5, CHR 0xA4, CHR 0x84, CHR 0xE7, CHR 0x90, CHR 0x86, CHR 0xE8,
    CHR 0xAF, CHR 0xB7, CHR 0xE6, CHR 0xB1, CHR 0x82] @ '' '' @ [CHR 0x27] "

definition log_request_mcp :: string where
  \<comment> \<open>mcp_server.py line 248\<close>
  "log_request_mcp = [CHR 0x27] @ '' '' @ [CHR 0xE6, CHR 0x97, CHR 0xB6, CHR 0xE5, CHR 0x8F,
    CHR 0x91, CHR 0xE7, CHR 0x94, CHR 0x9F] @ ''MCP'' @ [CHR 0xE9, CHR 0x94, CHR 0x99, CHR 0xE8,
    CHR 0xAF, CHR 0xAF] @ '': '' "

definition log_request_error :: string where
  \<comment> \<open>mcp_server.py line 251\<close>
  "log_request_error = [CHR 0x27] @ '' '' @ [CHR 0xE6, CHR 0x97, CHR 0xB6, CHR 0xE5, CHR 0x8F,
    CHR 0x91, CHR 0xE7, CHR 0x94, CHR 0x9F, CHR 0xE9, CHR 0x94, CHR 0x99, CHR 0xE8, CHR 0xAF,
    CHR 0xAF] @ '': '' "

definition log_call_open :: string where
  \<comment> \<open>mcp_server.py line 342\<close>
  "log_call_open = [CHR 0xE8, CHR 0xB0, CHR 0x83, CHR 0xE7, CHR 0x94, CHR 0xA8, CHR 0xE5,
    CHR 0xB7, CHR 0xA5, CHR 0xE5, CHR 0x85, CHR 0xB7] @ '' '' @ [CHR 0x27] "

definition log_register_tool :: string where
  \<comment> \<open>mcp_server.py line 174\<close>
  "log_register_tool = [CHR 0xE6, CHR 0xB3, CHR 0xA8, CHR 0xE5, CHR 0x86, CHR 0x8C] @ ''MCP'' @
    [CHR 0xE5, CHR 0xB7, CHR 0xA5, CHR 0xE5, CHR 0x85, CHR 0xB7] @ '': '' "

definition log_signal_open :: string where
  \<comment> \<open>mcp_server.py line 100\<close>
  "log_signal_open = [CHR 0xE6, CHR 0x94, CHR 0xB6, CHR 0xE5, CHR 0x88, CHR 0xB0, CHR 0xE4,
    CHR 0xBF, CHR 0xA1, CHR 0xE5, CHR 0x8F, CHR 0xB7] @ '' '' "

definition log_signal_close :: string where
  \<comment> \<open>mcp_server.py line 100\<close>
  "log_signal_close = [CHR 0xEF, CHR 0xBC, CHR 0x8C, CHR 0xE5, CHR 0x87, CHR 0x86, CHR 0xE5,
    CHR 0xA4, CHR 0x87, CHR 0xE6, CHR 0xB8, CHR 0x85, CHR 0xE7, CHR 0x90, CHR 0x86, CHR 0xE8,
    CHR 0xB5, CHR 0x84, CHR 0xE6, CHR 0xBA, CHR 0x90, CHR 0xE5, CHR 0xB9, CHR 0xB6, CHR 0xE9,
    CHR 0x80, CHR 0x80, CHR 0xE5, CHR 0x87, CHR 0xBA] "

definition log_cleanup_start :: string where
  \<comment> \<open>mcp_server.py line 115\<close>
  "log_cleanup_start = [CHR 0xE6, CHR 0xB8, CHR 0x85, CHR 0xE7, CHR 0x90, CHR 0x86, CHR 0xE8,
    CHR 0xB5, CHR 0x84, CHR 0xE6, CHR 0xBA, CHR 0x90] @ ''...'' "

definition log_stop_thread :: string where
  \<comment> \<open>mcp_server.py line 121\<close>
  "log_stop_thread = [CHR 0xE5, CHR 0x81, CHR 0x9C, CHR 0xE6, CHR 0xAD, CHR 0xA2, CHR 0xE7,
    CHR 0xBA, CHR 0xBF, CHR 0xE7, CHR 0xA8, CHR 0x8B] @ '': '' "

definition log_clean_controller :: string where
  \<comment> \<open>mcp_server.py line 129\<close>
  "log_clean_controller = [CHR 0xE6, CHR 0xB8, CHR 0x85, CHR 0xE7, CHR 0x90, CHR 0x86, CHR 0xE6,
    CHR 0x8E, CHR 0xA7, CHR 0xE5, CHR 0x88, CHR 0xB6, CHR 0xE5, CHR 0x99, CHR 0xA8] @ '': '' "

definition log_clean_failed :: string where
  \<comment> \<open>mcp_server.py line 133\<close>
  "log_clean_failed = [CHR 0xE6, CHR 0xB8, CHR 0x85, CHR 0xE7, CHR 0x90, CHR 0x86, CHR 0xE6,
    CHR 0x8E, CHR 0xA7, CHR 0xE5, CHR 0x88, CHR 0xB6, CHR 0xE5, CHR 0x99, CHR 0xA8, CHR 0xE5,
    CHR 0xA4, CHR 0xB1, CHR 0xE8, CHR 0xB4, CHR 0xA5] @ '': '' "

definition log_cleanup_done :: string where
  \<comment> \<open>mcp_server.py line 135\<close>
  "log_cleanup_done = [CHR 0xE8, CHR 0xB5, CHR 0x84, CHR 0xE6, CHR 0xBA, CHR 0x90, CHR 0xE6,
    CHR 0xB8, CHR 0x85, CHR 0xE7, CHR 0x90, CHR 0x86, CHR 0xE5, CHR 0xAE, CHR 0x8C, CHR 0xE6,
    CHR 0x88, CHR 0x90] "

definition desc_tools_list :: string where
  \<comment> \<open>mcp_server.py line 142\<close>
  "desc_tools_list = [CHR 0xE5, CHR 0x88, CHR 0x97, CHR 0xE5, CHR 0x87, CHR 0xBA, CHR 0xE6,
    CHR 0x89, CHR 0x80, CHR 0xE6, CHR 0x9C, CHR 0x89, CHR 0xE5, CHR 0x8F, CHR 0xAF, CHR 0xE7,
    CHR 0x94, CHR 0xA8, CHR 0xE5, CHR 0xB7, CHR 0xA5, CHR 0xE5, CHR 0x85, CHR 0xB7] "

definition desc_tools_call :: string where
  \<comment> \<open>mcp_server.py line 149\<close>
  "desc_tools_call = [CHR 0xE8, CHR 0xB0, CHR 0x83, CHR 0xE7, CHR 0x94, CHR 0xA8, CHR 0xE6,
    CHR 0x8C, CHR 0x87, CHR 0xE5, CHR 0xAE, CHR 0x9A, CHR 0xE5, CHR 0xB7, CHR 0xA5, CHR 0xE5,
    CHR 0x85, CHR 0xB7] "

definition desc_tool_name :: string where
  \<comment> \<open>mcp_server.py line 156\<close>
  "desc_tool_name = [CHR 0xE5, CHR 0xB7, CHR 0xA5, CHR 0xE5, CHR 0x85, CHR 0xB7, CHR 0xE5,
    CHR 0x90, CHR 0x8D, CHR 0xE7, CHR 0xA7, CHR 0xB0] "

definition desc_tool_params :: string where
  \<comment> \<open>mcp_server.py line 160\<close>
  "desc_tool_params = [CHR 0xE5, CHR 0xB7, CHR 0xA5, CHR 0xE5, CHR 0x85, CHR 0xB7, CHR 0xE5,
    CHR 0x8F, CHR 0x82, CHR 0xE6, CHR 0x95, CHR 0xB0] "

section \<open>The tool registry (mcp\_server.py)\<close>

text \<open>
  A handler takes the parameter value and returns a result or raises. The two built-in
  handlers are bound methods of the server, which read its registry; every other handler
  is a collaborator's function, either an ordinary one (\<open>Sync\<close>) or an \<open>async def\<close>
  (\<open>Async\<close>): calling the latter returns a coroutine object, and only awaiting that
  object runs the body.
\<close>

datatype handler =
    Builtin_tools_list
  | Builtin_tools_call
  | Sync "pyval \<Rightarrow> py_exn + pyval"
  | Async "pyval \<Rightarrow> py_exn + pyval"

record MCPTool =
  tool_name :: string
  tool_description :: string
  tool_handler :: handler
  tool_input_schema :: pyval
  tool_annotations :: pyval

definition falsy_to_empty_dict :: "pyval option \<Rightarrow> pyval" where
  \<comment> \<open>\<open>x or {}\<close> for an argument whose default is \<open>None\<close>\<close>
  "falsy_to_empty_dict x =
     (case x of None \<Rightarrow> PDict [] | Some v \<Rightarrow> if truthy v then v else PDict [])"

definition MCPTool_init ::
  "string \<Rightarrow> string \<Rightarrow> handler \<Rightarrow> pyval option \<Rightarrow> pyval option \<Rightarrow> MCPTool" where
  \<comment> \<open>mcp_server.py lines 47-59\<close>
  "MCPTool_init nm descr h schema annots =
     \<lparr>tool_name = nm, tool_description = descr, tool_handler = h,
      tool_input_schema = falsy_to_empty_dict schema,
      tool_annotations = falsy_to_empty_dict annots\<rparr>"

type_synonym registry = "(string \<times> MCPTool) list"

definition tools_call_schema :: pyval where
  \<comment> \<open>mcp_server.py lines 151-164\<close>
  "tools_call_schema =
     PDict [(''type'', PStr ''object''),
            (''properties'',
               PDict [(''name'',
                         PDict [(''type'', PStr ''string''), (''description'', PStr desc_tool_name)]),
                      (''parameters'',
                         PDict [(''type'', PStr ''object''),
                                (''description'', PStr desc_tool_params)])]),
            (''required'', PList [PStr ''name''])]"

definition register_core_tools :: "registry \<Rightarrow> registry" where
  \<comment> \<open>mcp_server.py lines 137-165\<close>
  "register_core_tools reg =
     dict_set
       (dict_set reg ''tools/list''
          (MCPTool_init ''list'' desc_tools_list Builtin_tools_list None None))
       ''tools/call''
       (MCPTool_init ''call'' desc_tools_call Builtin_tools_call (Some tools_call_schema) None)"

definition register_tool :: "registry \<Rightarrow> MCPTool \<Rightarrow> log \<times> registry" where
  \<comment> \<open>mcp_server.py lines 167-176\<close>
  "register_tool reg tool =
     ([(INFO, log_register_tool @ tool_name tool)],
      dict_set reg (''tools/'' @ tool_name tool) tool)"

definition tool_entry :: "MCPTool \<Rightarrow> pyval" where
  \<comment> \<open>mcp_server.py lines 309-314\<close>
  "tool_entry tool =
     PDict [(''name'', PStr (tool_name tool)),
            (''description'', PStr (tool_description tool)),
            (''inputSchema'', tool_input_schema tool),
            (''annotations'', tool_annotations tool)]"

definition listed :: "string \<Rightarrow> bool" where
  \<comment> \<open>mcp_server.py line 308: the filter of the listing\<close>
  "listed key = (startswith key ''tools/'' \<and> key \<noteq> ''tools/list'' \<and> key \<noteq> ''tools/call'')"

definition handle_tools_list :: "registry \<Rightarrow> pyval \<Rightarrow> pyval" where
  \<comment> \<open>mcp_server.py lines 294-316, \<open>_handle_tools_list\<close>\<close>
  "handle_tools_list reg params =
     PDict [(''tools'', PList (map (\<lambda>kt. tool_entry (snd kt)) (filter (\<lambda>kt. listed (fst kt)) reg)))]"

text \<open>
  \<open>_handle_tools_call\<close> calls the named tool's handler as an ordinary function, without
  awaiting. The target may be \<open>_handle_tools_call\<close> itself; the nesting is bounded by
  the interpreter, which raises RecursionError at the call that exceeds its limit. The
  first argument is the number of nested calls still allowed. The \<open>except Exception\<close>
  clause of line 341 catches what derives from \<open>Exception\<close>, an MCPError included; any
  other exception leaves the function as it is.
\<close>

fun handle_tools_call :: "pyenv \<Rightarrow> nat \<Rightarrow> registry \<Rightarrow> pyval \<Rightarrow> log \<times> (py_exn + pyval)" where
  "handle_tools_call env depth reg params =
     (case py_get params ''name'' PNone of
        Inl e \<Rightarrow> ([], Inl e)
      | Inr name \<Rightarrow>
         (case py_get params ''parameters'' (PDict []) of
            Inl e \<Rightarrow> ([], Inl e)
          | Inr tool_params \<Rightarrow>
             (case map_of reg (''tools/'' @ py_str env name) of
                None \<Rightarrow> ([], Inl (MCPError (msg_tool_not_found @ py_str env name) (-32601)))
              | Some tool \<Rightarrow>
                 (let (lg, r) =
                        (case tool_handler tool of
                           Sync f \<Rightarrow> ([], f tool_params)
                         | Async f \<Rightarrow> ([], Inr (PObj ''coroutine''))
                         | Builtin_tools_list \<Rightarrow> ([], Inr (handle_tools_list reg tool_params))
                         | Builtin_tools_call \<Rightarrow>
                            (case depth of
                               0 \<Rightarrow> ([], Inl recursion_error)
                             | Suc d \<Rightarrow> handle_tools_call env d reg tool_params))
                  in case r of
                       Inr result \<Rightarrow> (lg, Inr (PDict [(''result'', result)]))
                     | Inl e \<Rightarrow>
                        if base_only e then (lg, Inl e)
                        else
                          (lg @ [(ERROR, log_call_open @ py_str env name @ log_request_error @
                                         exn_str e)],
                           Inl (MCPError (msg_tool_call_failed @ exn_str e) default_mcp_code))))))"

declare handle_tools_call.simps [simp del]

definition call_handler :: "pyenv \<Rightarrow> registry \<Rightarrow> handler \<Rightarrow> pyval \<Rightarrow> log \<times> (py_exn + pyval)" where
  \<comment> \<open>mcp_server.py lines 286-292, \<open>_call_handler\<close>: an \<open>async def\<close> handler is awaited\<close>
  "call_handler env reg h params =
     (case h of
        Sync f \<Rightarrow> ([], f params)
      | Async f \<Rightarrow> ([], f params)
      | Builtin_tools_list \<Rightarrow> ([], Inr (handle_tools_list reg params))
      | Builtin_tools_call \<Rightarrow> handle_tools_call env (recursion_limit env) reg params)"

section \<open>Response envelopes (mcp\_server.py)\<close>

text \<open>
  The HTTP response carries \<open>json.dumps(response.dict(exclude_none=True))\<close>: the fields of
  the \<open>MCPResponse\<close> model (lines 37-42) in their declared order, without the fields
  whose value is \<open>None\<close>. \<open>content\<close> is that JSON document.
\<close>

record Response =
  content :: pyval
  media_type :: string

definition exclude_none :: "(string \<times> pyval) list \<Rightarrow> (string \<times> pyval) list" where
  "exclude_none flds = filter (\<lambda>kv. snd kv \<noteq> PNone) flds"

fun id_pyval :: "id_value \<Rightarrow> pyval" where
  "id_pyval (Id_int n) = PInt n"
| "id_pyval (Id_str s) = PStr s"

definition validate_optional_id :: "pyenv \<Rightarrow> pyval \<Rightarrow> py_exn + pyval" where
  \<comment> \<open>the model's \<open>id: Optional[Union[int, str]] = None\<close>\<close>
  "validate_optional_id env request_id =
     (if request_id = PNone then Inr PNone
      else (case validate_id env request_id of Inl e \<Rightarrow> Inl e | Inr i \<Rightarrow> Inr (id_pyval i)))"

definition json_response :: "(string \<times> pyval) list \<Rightarrow> py_exn + Response" where
  "json_response flds =
     (case unserializable (PDict flds) of
        Some t \<Rightarrow> Inl (not_serializable_error t)
      | None \<Rightarrow> Inr \<lparr>content = PDict flds, media_type = ''application/json''\<rparr>)"

definition create_success_response :: "pyenv \<Rightarrow> pyval \<Rightarrow> pyval \<Rightarrow> py_exn + Response" where
  \<comment> \<open>mcp_server.py lines 259-269, \<open>_create_success_response\<close>\<close>
  "create_success_response env request_id result =
     (case validate_optional_id env request_id of
        Inl e \<Rightarrow> Inl e
      | Inr rid \<Rightarrow>
         json_response
           (exclude_none
              [(''jsonrpc'', PStr ''2.0''), (''id'', rid), (''result'', result),
               (''error'', PNone)]))"

definition create_error_response ::
  "pyenv \<Rightarrow> pyval \<Rightarrow> string \<Rightarrow> int \<Rightarrow> py_exn + Response" where
  \<comment> \<open>mcp_server.py lines 271-284, \<open>_create_error_response\<close>\<close>
  "create_error_response env request_id message code =
     (case validate_optional_id env request_id of
        Inl e \<Rightarrow> Inl e
      | Inr rid \<Rightarrow>
         json_response
           (exclude_none
              [(''jsonrpc'', PStr ''2.0''), (''id'', rid), (''result'', PNone),
               (''error'', PDict [(''code'', PInt code), (''message'', PStr message)])]))"

text \<open>Reading a response: the fields of the JSON document.\<close>

definition field :: "Response \<Rightarrow> string \<Rightarrow> pyval option" where
  "field resp k = (case content resp of PDict d \<Rightarrow> map_of d k | _ \<Rightarrow> None)"

definition error_code :: "Response \<Rightarrow> pyval option" where
  "error_code resp = (case field resp ''error'' of Some (PDict d) \<Rightarrow> map_of d ''code'' | _ \<Rightarrow> None)"

definition error_message :: "Response \<Rightarrow> pyval option" where
  "error_message resp =
     (case field resp ''error'' of Some (PDict d) \<Rightarrow> map_of d ''message'' | _ \<Rightarrow> None)"

section \<open>The dispatcher (mcp\_server.py)\<close>

definition handle_batch_request :: "pyenv \<Rightarrow> pyval \<Rightarrow> py_exn + Response" where
  \<comment> \<open>mcp_server.py lines 254-257, \<open>_handle_batch_request\<close>\<close>
  "handle_batch_request env batch = create_error_response env PNone msg_batch_unsupported (-32600)"

definition request_failed ::
  "pyenv \<Rightarrow> pyval \<Rightarrow> pyval \<Rightarrow> py_exn \<Rightarrow> log \<times> (py_exn + Response)" where
  \<comment> \<open>mcp_server.py lines 247-252: the two \<open>except\<close> clauses of \<open>_handle_single_request\<close>;
      an exception they do not catch goes on\<close>
  "request_failed env request_id method e =
     (case e of
        MCPError message code \<Rightarrow>
          ([(WARNING, log_request_open @ py_str env method @ log_request_mcp @ message @
                      log_code_open @ py_str env (PInt code) @ '')'')],
           create_error_response env request_id message code)
      | PyException cls text \<Rightarrow>
          ([(ERROR, log_request_open @ py_str env method @ log_request_error @ text)],
           create_error_response env request_id (msg_server_internal @ text) (-32603))
      | PyBaseException cls text \<Rightarrow> ([], Inl e))"

definition handle_single_request ::
  "pyenv \<Rightarrow> registry \<Rightarrow> pyval \<Rightarrow> log \<times> (py_exn + Response)" where
  \<comment> \<open>mcp_server.py lines 225-252, \<open>_handle_single_request\<close>\<close>
  "handle_single_request env reg data =
     (case data of
        PDict d \<Rightarrow>
          if map_of d ''jsonrpc'' \<noteq> Some (PStr ''2.0'') \<or> map_of d ''method'' = None
          then ([], create_error_response env (dict_get d ''id'' PNone) msg_invalid_request (-32600))
          else
            (let request_id = dict_get d ''id'' PNone;
                 method = dict_get d ''method'' PNone;
                 params = dict_get d ''params'' (PDict [])
             in if \<not> hashable method then ([], Inl (unhashable_error method))
                else
                  (case (case method of PStr m \<Rightarrow> map_of reg m | _ \<Rightarrow> None) of
                     None \<Rightarrow>
                       ([], create_error_response env request_id
                              (msg_method_not_found @ py_str env method) (-32601))
                   | Some tool \<Rightarrow>
                       (let (lg, r) = call_handler env reg (tool_handler tool) params
                        in case r of
                             Inl e \<Rightarrow>
                               (let (lg', resp) = request_failed env request_id method e
                                in (lg @ lg', resp))
                           | Inr result \<Rightarrow>
                               (case create_success_response env request_id result of
                                  Inr resp \<Rightarrow> (lg, Inr resp)
                                | Inl e \<Rightarrow>
                                    (let (lg', resp) = request_failed env request_id method e
                                     in (lg @ lg', resp))))))
      | _ \<Rightarrow> ([], Inl (attribute_error data ''get'')))"

definition id_of_data :: "pyval \<Rightarrow> pyval" where
  \<comment> \<open>mcp_server.py lines 212 and 220\<close>
  "id_of_data data = (case data of PDict d \<Rightarrow> dict_get d ''id'' PNone | _ \<Rightarrow> PNone)"

definition jsonrpc_failed :: "pyenv \<Rightarrow> pyval \<Rightarrow> py_exn \<Rightarrow> log \<times> (py_exn + Response)" where
  \<comment> \<open>mcp_server.py lines 208-223: the two \<open>except\<close> clauses of \<open>handle_jsonrpc\<close>; an
      exception they do not catch goes on\<close>
  "jsonrpc_failed env data e =
     (case e of
        MCPError message code \<Rightarrow>
          ([(WARNING, log_mcp_error @ message @ log_code_open @ py_str env (PInt code) @ '')'')],
           create_error_response env (id_of_data data) message code)
      | PyException cls text \<Rightarrow>
          ([(ERROR, log_uncaught @ text)],
           create_error_response env (id_of_data data) ''Internal error'' (-32603))
      | PyBaseException cls text \<Rightarrow> ([], Inl e))"

definition is_json_decode_error :: "py_exn \<Rightarrow> bool" where
  "is_json_decode_error e = (case e of PyException cls text \<Rightarrow> cls = ''JSONDecodeError'' | _ \<Rightarrow> False)"

definition parse_body :: "pyenv \<Rightarrow> string \<Rightarrow> py_exn + pyval" where
  \<comment> \<open>mcp_server.py line 197: \<open>json.loads(body.decode("utf-8"))\<close>\<close>
  "parse_body env body =
     (case decode_utf8 env body of Inl e \<Rightarrow> Inl e | Inr text \<Rightarrow> json_loads env text)"

definition reraise :: "pyenv \<Rightarrow> pyval \<Rightarrow> log \<times> (py_exn + Response) \<Rightarrow> log \<times> (py_exn + Response)" where
  \<comment> \<open>the outer \<open>try\<close> of \<open>handle_jsonrpc\<close>: what is raised inside reaches its \<open>except\<close> clauses\<close>
  "reraise env data out =
     (case snd out of
        Inr resp \<Rightarrow> out
      | Inl e \<Rightarrow> (let (lg', resp) = jsonrpc_failed env data e in (fst out @ lg', resp)))"

definition handle_jsonrpc :: "pyenv \<Rightarrow> registry \<Rightarrow> string \<Rightarrow> log \<times> (py_exn + Response)" where
  \<comment> \<open>mcp_server.py lines 178-223. \<open>Inl\<close>: the exception leaves the function.\<close>
  "handle_jsonrpc env reg body =
     (if body = []
      then reraise env PNone ([], create_error_response env PNone msg_empty_request (-32600))
      else
        (case parse_body env body of
           Inl e \<Rightarrow>
             if is_json_decode_error e
             then reraise env PNone ([], create_error_response env PNone msg_invalid_json (-32700))
             else reraise env PNone ([], Inl e)
         | Inr data \<Rightarrow>
             (case data of
                PList batch \<Rightarrow> reraise env data ([], handle_batch_request env data)
              | _ \<Rightarrow> reraise env data (handle_single_request env reg data))))"

text \<open>
  The two envelopes as \<open>json.dumps\<close> receives them, for an id that passed validation
  (\<open>PNone\<close> when the request has none).
\<close>

definition error_envelope :: "pyval \<Rightarrow> int \<Rightarrow> string \<Rightarrow> Response" where
  "error_envelope rid code message =
     \<lparr>content = PDict (exclude_none
         [(''jsonrpc'', PStr ''2.0''), (''id'', rid),
          (''error'', PDict [(''code'', PInt code), (''message'', PStr message)])]),
      media_type = ''application/json''\<rparr>"

definition success_envelope :: "pyval \<Rightarrow> pyval \<Rightarrow> Response" where
  "success_envelope rid result =
     \<lparr>content = PDict (exclude_none
         [(''jsonrpc'', PStr ''2.0''), (''id'', rid), (''result'', result)]),
      media_type = ''application/json''\<rparr>"

section \<open>Resource cleanup (mcp\_server.py)\<close>

text \<open>
  A tracked controller is any object; \<open>cleanup\<close> asks whether it has an attribute
  \<open>cleanup\<close> and whether that attribute is callable. A hook acts on the state of the
  world outside the server (\<open>'w\<close>) and either returns or raises an exception. A tracked
  thread is a \<open>threading.Thread\<close>, whose \<open>is_alive()\<close> returns a boolean.
\<close>

datatype 'w cleanup_attr =
    No_attribute
  | Not_callable
  | Hook "'w \<Rightarrow> py_exn option \<times> 'w"

record 'w controller =
  class_name :: string
  cleanup_attr :: "'w cleanup_attr"

record thread =
  thread_name :: string
  is_alive :: bool

record 'w resources =
  running_threads :: "thread list"
  controllers :: "'w controller list"

definition register_controller :: "'w resources \<Rightarrow> 'w controller \<Rightarrow> 'w resources" where
  \<comment> \<open>mcp_server.py lines 103-106\<close>
  "register_controller res c =
     (if c \<in> set (controllers res) then res else res\<lparr>controllers := controllers res @ [c]\<rparr>)"

definition register_thread :: "'w resources \<Rightarrow> thread \<Rightarrow> 'w resources" where
  \<comment> \<open>mcp_server.py lines 108-111\<close>
  "register_thread res t =
     (if t \<in> set (running_threads res) then res
      else res\<lparr>running_threads := running_threads res @ [t]\<rparr>)"

text \<open>
  The outcome of a run of statements: whether an exception left them, the log lines
  written, the controllers whose hook was called (in order), and the world afterwards.
\<close>

record 'w outcome =
  raised :: "py_exn option"
  logged :: log
  invoked :: "'w controller list"
  world :: 'w

definition thread_step :: "thread \<Rightarrow> log" where
  \<comment> \<open>mcp_server.py lines 119-124: the body of the loop over the threads\<close>
  "thread_step t = (if is_alive t then [(DEBUG, log_stop_thread @ thread_name t)] else [])"

definition controller_try :: "'w controller \<Rightarrow> 'w \<Rightarrow> 'w outcome" where
  \<comment> \<open>mcp_server.py lines 129-131: the statements inside the \<open>try\<close>\<close>
  "controller_try c w =
     (case cleanup_attr c of
        Hook h \<Rightarrow>
          (case h w of
             (e, w') \<Rightarrow>
               \<lparr>raised = e, logged = [(DEBUG, log_clean_controller @ class_name c)],
                invoked = [c], world = w'\<rparr>)
      | _ \<Rightarrow>
          \<lparr>raised = None, logged = [(DEBUG, log_clean_controller @ class_name c)],
           invoked = [], world = w\<rparr>)"

definition controller_step :: "'w controller \<Rightarrow> 'w \<Rightarrow> 'w outcome" where
  \<comment> \<open>mcp_server.py lines 128-133: the \<open>try\<close> with its \<open>except Exception as e\<close>, which
      an exception not derived from \<open>Exception\<close> passes\<close>
  "controller_step c w =
     (let out = controller_try c w
      in case raised out of
           None \<Rightarrow> out
         | Some e \<Rightarrow>
             if base_only e then out
             else out\<lparr>raised := None,
                      logged := logged out @ [(ERROR, log_clean_failed @ exn_str e)]\<rparr>)"

fun controllers_loop :: "'w controller list \<Rightarrow> 'w \<Rightarrow> 'w outcome" where
  \<comment> \<open>mcp_server.py line 127: the \<open>for\<close> loop; an exception that leaves the body ends it\<close>
  "controllers_loop [] w = \<lparr>raised = None, logged = [], invoked = [], world = w\<rparr>"
| "controllers_loop (c # cs) w =
     (let out = controller_step c w
      in case raised out of
           Some e \<Rightarrow> out
         | None \<Rightarrow>
             (let rest = controllers_loop cs (world out)
              in rest\<lparr>logged := logged out @ logged rest,
                      invoked := invoked out @ invoked rest\<rparr>))"

definition cleanup :: "'w resources \<Rightarrow> 'w \<Rightarrow> 'w outcome" where
  \<comment> \<open>mcp_server.py lines 113-135\<close>
  "cleanup res w =
     (let lg = [(INFO, log_cleanup_start)] @ concat (map thread_step (running_threads res));
          out = controllers_loop (controllers res) w
      in case raised out of
           Some e \<Rightarrow> out\<lparr>logged := lg @ logged out\<rparr>
         | None \<Rightarrow> out\<lparr>logged := lg @ logged out @ [(INFO, log_cleanup_done)]\<rparr>)"

definition handle_signal :: "pyenv \<Rightarrow> 'w resources \<Rightarrow> int \<Rightarrow> 'w \<Rightarrow> 'w outcome" where
  \<comment> \<open>mcp_server.py lines 98-101, \<open>_handle_signal\<close>, the handler of SIGTERM and SIGINT\<close>
  "handle_signal env res signum w =
     (let out = cleanup res w
      in out\<lparr>logged :=
               [(INFO, log_signal_open @ py_str env (PInt signum) @ log_signal_close)] @ logged out\<rparr>)"

definition has_hook :: "'w controller \<Rightarrow> bool" where
  \<comment> \<open>mcp_server.py line 130: \<open>hasattr(controller, "cleanup") and callable(controller.cleanup)\<close>\<close>
  "has_hook c = (case cleanup_attr c of Hook h \<Rightarrow> True | _ \<Rightarrow> False)"

definition tame :: "'w controller \<Rightarrow> bool" where
  \<comment> \<open>the hook, if there is one, returns or raises an exception derived from \<open>Exception\<close>\<close>
  "tame c =
     (case cleanup_attr c of
        Hook h \<Rightarrow> (\<forall>w. case fst (h w) of None \<Rightarrow> True | Some e \<Rightarrow> \<not> base_only e)
      | _ \<Rightarrow> True)"

text \<open>
  \<open>cleanup\<close> invoked \<open>n\<close> times in a row (at exit and from the signal handlers), each
  time in the world the previous invocation left.
\<close>

fun repeated_cleanup :: "'w resources \<Rightarrow> nat \<Rightarrow> 'w \<Rightarrow> 'w outcome list" where
  "repeated_cleanup res 0 w = []"
| "repeated_cleanup res (Suc n) w =
     (let out = cleanup res w in out # repeated_cleanup res n (world out))"

section \<open>Message literals of multi\_device\_controller.py\<close>

definition msg_unsupported_action :: string where
  \<comment> \<open>multi_device_controller.py lines 224 and 416: unsupported action, followed by the action\<close>
  "msg_unsupported_action = [CHR 0xE4, CHR 0xB8, CHR 0x8D, CHR 0xE6, CHR 0x94, CHR 0xAF,
    CHR 0xE6, CHR 0x8C, CHR 0x81, CHR 0xE7, CHR 0x9A, CHR 0x84, CHR 0xE6, CHR 0x93, CHR 0x8D,
    CHR 0xE4, CHR 0xBD, CHR 0x9C, CHR 0xE7, CHR 0xB1, CHR 0xBB, CHR 0xE5, CHR 0x9E, CHR 0x8B] @
    '': '' "

definition msg_no_lock_name :: string where
  \<comment> \<open>multi_device_controller.py line 168: no lock name given\<close>
  "msg_no_lock_name = [CHR 0xE6, CHR 0x9C, CHR 0xAA, CHR 0xE6, CHR 0x8C, CHR 0x87, CHR 0xE5,
    CHR 0xAE, CHR 0x9A, CHR 0xE9, CHR 0x94, CHR 0x81, CHR 0xE5, CHR 0x90, CHR 0x8D, CHR 0xE7,
    CHR 0xA7, CHR 0xB0] "

definition msg_lock_created :: string where
  \<comment> \<open>multi_device_controller.py line 174: created lock, followed by the name\<close>
  "msg_lock_created = [CHR 0xE5, CHR 0xB7, CHR 0xB2, CHR 0xE5, CHR 0x88, CHR 0x9B, CHR 0xE5,
    CHR 0xBB, CHR 0xBA, CHR 0xE9, CHR 0x94, CHR 0x81] @ '' '' "

definition msg_lock_open :: string where
  \<comment> \<open>multi_device_controller.py lines 188 and 215: lock, followed by the name\<close>
  "msg_lock_open = [CHR 0xE9, CHR 0x94, CHR 0x81] @ '' '' "

definition msg_lock_triggered :: string where
  \<comment> \<open>multi_device_controller.py line 188: has been triggered\<close>
  "msg_lock_triggered = '' '' @ [CHR 0xE5, CHR 0xB7, CHR 0xB2, CHR 0xE8, CHR 0xA7, CHR 0xA6,
    CHR 0xE5, CHR 0x8F, CHR 0x91] "

definition msg_wait_open :: string where
  \<comment> \<open>multi_device_controller.py line 190: waiting for lock, followed by the name\<close>
  "msg_wait_open = [CHR 0xE7, CHR 0xAD, CHR 0x89, CHR 0xE5, CHR 0xBE, CHR 0x85, CHR 0xE9,
    CHR 0x94, CHR 0x81] @ '' '' "

definition msg_wait_timeout :: string where
  \<comment> \<open>multi_device_controller.py line 190: timed out\<close>
  "msg_wait_timeout = '' '' @ [CHR 0xE8, CHR 0xB6, CHR 0x85, CHR 0xE6, CHR 0x97, CHR 0xB6] "

definition msg_lock_set :: string where
  \<comment> \<open>multi_device_controller.py line 204: lock set, followed by the name\<close>
  "msg_lock_set = [CHR 0xE5, CHR 0xB7, CHR 0xB2, CHR 0xE8, CHR 0xAE, CHR 0xBE, CHR 0xE7,
    CHR 0xBD, CHR 0xAE, CHR 0xE9, CHR 0x94, CHR 0x81] @ '' '' "

definition msg_lock_missing :: string where
  \<comment> \<open>multi_device_controller.py line 215: does not exist\<close>
  "msg_lock_missing = '' '' @ [CHR 0xE4, CHR 0xB8, CHR 0x8D, CHR 0xE5, CHR 0xAD, CHR 0x98,
    CHR 0xE5, CHR 0x9C, CHR 0xA8] "

definition msg_lock_released :: string where
  \<comment> \<open>multi_device_controller.py line 220: lock released, followed by the name\<close>
  "msg_lock_released = [CHR 0xE5, CHR 0xB7, CHR 0xB2, CHR 0xE9, CHR 0x87, CHR 0x8A, CHR 0xE6,
    CHR 0x94, CHR 0xBE, CHR 0xE9, CHR 0x94, CHR 0x81] @ '' '' "

definition msg_no_source :: string where
  \<comment> \<open>multi_device_controller.py line 345: no source device given\<close>
  "msg_no_source = [CHR 0xE6, CHR 0x9C, CHR 0xAA, CHR 0xE6, CHR 0x8C, CHR 0x87, CHR 0xE5,
    CHR 0xAE, CHR 0x9A, CHR 0xE6, CHR 0xBA, CHR 0x90, CHR 0xE8, CHR 0xAE, CHR 0xBE, CHR 0xE5,
    CHR 0xA4, CHR 0x87] @ ''ID'' "

definition msg_no_target :: string where
  \<comment> \<open>multi_device_controller.py line 348: no target device given\<close>
  "msg_no_target = [CHR 0xE6, CHR 0x9C, CHR 0xAA, CHR 0xE6, CHR 0x8C, CHR 0x87, CHR 0xE5,
    CHR 0xAE, CHR 0x9A, CHR 0xE7, CHR 0x9B, CHR 0xAE, CHR 0xE6, CHR 0xA0, CHR 0x87, CHR 0xE8,
    CHR 0xAE, CHR 0xBE, CHR 0xE5, CHR 0xA4, CHR 0x87] @ ''ID'' "

definition msg_no_device_path :: string where
  \<comment> \<open>multi_device_controller.py line 351: no device path given\<close>
  "msg_no_device_path = [CHR 0xE6, CHR 0x9C, CHR 0xAA, CHR 0xE6, CHR 0x8C, CHR 0x87, CHR 0xE5,
    CHR 0xAE, CHR 0x9A, CHR 0xE8, CHR 0xAE, CHR 0xBE, CHR 0xE5, CHR 0xA4, CHR 0x87, CHR 0xE6,
    CHR 0x96, CHR 0x87, CHR 0xE4, CHR 0xBB, CHR 0xB6, CHR 0xE8, CHR 0xB7, CHR 0xAF, CHR 0xE5,
    CHR 0xBE, CHR 0x84] "

definition msg_no_data_key :: string where
  \<comment> \<open>multi_device_controller.py lines 390 and 404: no data key given\<close>
  "msg_no_data_key = [CHR 0xE6, CHR 0x9C, CHR 0xAA, CHR 0xE6, CHR 0x8C, CHR 0x87, CHR 0xE5,
    CHR 0xAE, CHR 0x9A, CHR 0xE6, CHR 0x95, CHR 0xB0, CHR 0xE6, CHR 0x8D, CHR 0xAE, CHR 0xE9,
    CHR 0x94, CHR 0xAE] "

definition msg_no_data_value :: string where
  \<comment> \<open>multi_device_controller.py line 393: no data value given\<close>
  "msg_no_data_value = [CHR 0xE6, CHR 0x9C, CHR 0xAA, CHR 0xE6, CHR 0x8C, CHR 0x87, CHR 0xE5,
    CHR 0xAE, CHR 0x9A, CHR 0xE6, CHR 0x95, CHR 0xB0, CHR 0xE6, CHR 0x8D, CHR 0xAE, CHR 0xE5,
    CHR 0x80, CHR 0xBC] "

definition msg_data_shared :: string where
  \<comment> \<open>multi_device_controller.py line 399: data shared, key, followed by the key\<close>
  "msg_data_shared = [CHR 0xE6, CHR 0x95, CHR 0xB0, CHR 0xE6, CHR 0x8D, CHR 0xAE, CHR 0xE5,
    CHR 0xB7, CHR 0xB2, CHR 0xE5, CHR 0x85, CHR 0xB1, CHR 0xE4, CHR 0xBA, CHR 0xAB, CHR 0xEF,
    CHR 0xBC, CHR 0x8C, CHR 0xE9, CHR 0x94, CHR 0xAE] @ '': '' "

definition msg_key_missing :: string where
  \<comment> \<open>multi_device_controller.py line 409: no such key in the shared data, followed by the key\<close>
  "msg_key_missing = [CHR 0xE5, CHR 0x85, CHR 0xB1, CHR 0xE4, CHR 0xBA, CHR 0xAB, CHR 0xE6,
    CHR 0x95, CHR 0xB0, CHR 0xE6, CHR 0x8D, CHR 0xAE, CHR 0xE4, CHR 0xB8, CHR 0xAD, CHR 0xE4,
    CHR 0xB8, CHR 0x8D, CHR 0xE5, CHR 0xAD, CHR 0x98, CHR 0xE5, CHR 0x9C, CHR 0xA8, CHR 0xE9,
    CHR 0x94, CHR 0xAE] @ '': '' "

definition msg_share_failed :: string where
  \<comment> \<open>multi_device_controller.py line 420: sharing between devices failed, followed by str(e)\<close>
  "msg_share_failed = [CHR 0xE8, CHR 0xAE, CHR 0xBE, CHR 0xE5, CHR 0xA4, CHR 0x87, CHR 0xE9,
    CHR 0x97, CHR 0xB4, CHR 0xE5, CHR 0x85, CHR 0xB1, CHR 0xE4, CHR 0xBA, CHR 0xAB, CHR 0xE6,
    CHR 0x93, CHR 0x8D, CHR 0xE4, CHR 0xBD, CHR 0x9C, CHR 0xE5, CHR 0xA4, CHR 0xB1, CHR 0xE8,
    CHR 0xB4, CHR 0xA5] @ '': '' "

section \<open>The coordinator (multi\_device\_controller.py)\<close>

text \<open>
  \<open>sync_locks\<close> maps a lock name to a \<open>threading.Event\<close> object. The objects live in a
  store: \<open>events\<close> holds the flag of every Event created so far, and an object is its
  index there. \<open>shared_data\<close> is the blackboard.
\<close>

record coordinator =
  sync_locks :: "string \<rightharpoonup> nat"
  events :: "bool list"
  shared_data :: "string \<rightharpoonup> pyval"

definition coordinator_init :: coordinator where
  \<comment> \<open>multi_device_controller.py lines 40-43\<close>
  "coordinator_init = \<lparr>sync_locks = Map.empty, events = [], shared_data = Map.empty\<rparr>"

definition reply :: "bool \<Rightarrow> string \<Rightarrow> pyval" where
  \<comment> \<open>\<open>{"success": ..., "message": ...}\<close>\<close>
  "reply ok message = PDict [(''success'', PBool ok), (''message'', PStr message)]"


definition new_event :: "coordinator \<Rightarrow> string \<Rightarrow> nat \<times> coordinator" where
  \<comment> \<open>\<open>self.sync_locks[lock_name] = threading.Event()\<close>: a new object, its flag unset\<close>
  "new_event s lock_name =
     (length (events s),
      s\<lparr>sync_locks := (sync_locks s)(lock_name \<mapsto> length (events s)),
        events := events s @ [False]\<rparr>)"

definition get_or_create_event :: "coordinator \<Rightarrow> string \<Rightarrow> nat \<times> coordinator" where
  \<comment> \<open>multi_device_controller.py lines 180-182 and 197-199\<close>
  "get_or_create_event s lock_name =
     (case sync_locks s lock_name of None \<Rightarrow> new_event s lock_name | Some a \<Rightarrow> (a, s))"

definition event_is_set :: "coordinator \<Rightarrow> nat \<Rightarrow> bool" where
  "event_is_set s a = (a < length (events s) \<and> events s ! a)"

definition event_write :: "coordinator \<Rightarrow> nat \<Rightarrow> bool \<Rightarrow> coordinator" where
  \<comment> \<open>\<open>Event.set()\<close> and \<open>Event.clear()\<close>\<close>
  "event_write s a flag = s\<lparr>events := (events s)[a := flag]\<rparr>"

text \<open>
  \<open>sync_operations\<close> as one call runs from entry to return when no other thread takes a
  step in between. \<open>Event.wait(timeout)\<close> returns True at once when the flag is set;
  when it is not, the call blocks, and with no other thread to set the flag it returns
  False when the timeout has passed. What the call does among other threads is
  \<open>conc_step\<close> below.
\<close>

definition sync_operations ::
  "coordinator \<Rightarrow> string \<Rightarrow> string option \<Rightarrow> int \<Rightarrow> pyval \<times> coordinator" where
  \<comment> \<open>multi_device_controller.py lines 154-224\<close>
  "sync_operations s action lock_name timeout =
     (case lock_name of
        None \<Rightarrow> (reply False msg_no_lock_name, s)
      | Some l \<Rightarrow>
          if l = [] then (reply False msg_no_lock_name, s)
          else if action = ''create'' then
            (reply True (msg_lock_created @ l), snd (new_event s l))
          else if action = ''wait'' then
            (let (a, s') = get_or_create_event s l
             in if event_is_set s' a
                then (reply True (msg_lock_open @ l @ msg_lock_triggered), s')
                else (reply False (msg_wait_open @ l @ msg_wait_timeout), s'))
          else if action = ''set'' then
            (let (a, s') = get_or_create_event s l
             in (reply True (msg_lock_set @ l), event_write s' a True))
          else if action = ''release'' then
            (case sync_locks s l of
               Some a \<Rightarrow> (reply True (msg_lock_released @ l), event_write s a False)
             | None \<Rightarrow> (reply False (msg_lock_open @ l @ msg_lock_missing), s))
          else (reply False (msg_unsupported_action @ action), s))"




definition signalled :: "coordinator \<Rightarrow> string \<Rightarrow> bool" where
  \<comment> \<open>the name has an Event and its flag is set\<close>
  "signalled s l = (case sync_locks s l of None \<Rightarrow> False | Some a \<Rightarrow> event_is_set s a)"


















text \<open>
  The blackboard. \<open>copy_file\<close> runs adb on the devices and is a collaborator: after its
  three argument checks the branch is \<open>adb_copy\<close>, given source, target and path. The
  \<open>except Exception\<close> clause of line 418 turns what derives from \<open>Exception\<close> into a
  failure reply; any other exception leaves the function. The log line of the clause
  (line 419) is not modelled.
\<close>

definition falsy_str :: "string option \<Rightarrow> bool" where
  \<comment> \<open>\<open>not x\<close> for an argument that is a \<open>str\<close> or \<open>None\<close>\<close>
  "falsy_str x = (case x of None \<Rightarrow> True | Some t \<Rightarrow> t = [])"

definition share_between_devices ::
  "(string \<Rightarrow> string \<Rightarrow> string \<Rightarrow> py_exn + pyval) \<Rightarrow> coordinator \<Rightarrow> string \<Rightarrow>
   string option \<Rightarrow> string option \<Rightarrow> string option \<Rightarrow> string option \<Rightarrow> string option \<Rightarrow>
   pyval \<Rightarrow> (py_exn + pyval) \<times> coordinator" where
  \<comment> \<open>multi_device_controller.py lines 323-420\<close>
  "share_between_devices adb_copy s action source_device target_device local_path device_path
       data_key data_value =
     (if action = ''copy_file'' then
        (if falsy_str source_device then (Inr (reply False msg_no_source), s)
         else if falsy_str target_device then (Inr (reply False msg_no_target), s)
         else if falsy_str device_path then (Inr (reply False msg_no_device_path), s)
         else
           (case adb_copy (the source_device) (the target_device) (the device_path) of
              Inr r \<Rightarrow> (Inr r, s)
            | Inl e \<Rightarrow>
                if base_only e then (Inl e, s)
                else (Inr (reply False (msg_share_failed @ exn_str e)), s)))
      else if action = ''share_data'' then
        (if falsy_str data_key then (Inr (reply False msg_no_data_key), s)
         else if data_value = PNone then (Inr (reply False msg_no_data_value), s)
         else
           (Inr (reply True (msg_data_shared @ the data_key)),
            s\<lparr>shared_data := (shared_data s)(the data_key \<mapsto> data_value)\<rparr>))
      else if action = ''get_data'' then
        (if falsy_str data_key then (Inr (reply False msg_no_data_key), s)
         else
           (case shared_data s (the data_key) of
              None \<Rightarrow> (Inr (reply False (msg_key_missing @ the data_key)), s)
            | Some v \<Rightarrow> (Inr (PDict [(''success'', PBool True), (''data'', v)]), s)))
      else (Inr (reply False (msg_unsupported_action @ action)), s))"

text \<open>
  The two blackboard operations of the specification: \<open>share(key, value)\<close> is the action
  \<open>share_data\<close> and \<open>get(key)\<close> the action \<open>get_data\<close>, the other arguments left at
  their default \<open>None\<close>.
\<close>

definition share :: "coordinator \<Rightarrow> string \<Rightarrow> pyval \<Rightarrow> (py_exn + pyval) \<times> coordinator" where
  "share s k v =
     share_between_devices (\<lambda>a b c. Inr PNone) s ''share_data'' None None None None (Some k) v"

definition get_data :: "coordinator \<Rightarrow> string \<Rightarrow> (py_exn + pyval) \<times> coordinator" where
  "get_data s k =
     share_between_devices (\<lambda>a b c. Inr PNone) s ''get_data'' None None None None (Some k) PNone"

fun share_all :: "coordinator \<Rightarrow> (string \<times> pyval) list \<Rightarrow> coordinator" where
  "share_all s [] = s"
| "share_all s ((k, v) # kvs) = share_all (snd (share s k v)) kvs"

section \<open>Schema inference (android\_tools.py)\<close>

subsection \<open>The string methods used\<close>

text \<open>
  \<open>str.strip()\<close> removes the leading and trailing white space, which for Python is the
  set of code points below, each given by its UTF-8 encoding: U+0009 to U+000D, U+001C
  to U+0020, U+0085, U+00A0, U+1680, U+2000 to U+200A, U+2028, U+2029, U+202F, U+205F
  and U+3000.
\<close>

definition whitespace :: "string list" where
  "whitespace =
     [[CHR 0x09], [CHR 0x0A], [CHR 0x0B], [CHR 0x0C], [CHR 0x0D],
      [CHR 0x1C], [CHR 0x1D], [CHR 0x1E], [CHR 0x1F], [CHR 0x20],
      [CHR 0xC2, CHR 0x85], [CHR 0xC2, CHR 0xA0], [CHR 0xE1, CHR 0x9A, CHR 0x80],
      [CHR 0xE2, CHR 0x80, CHR 0x80], [CHR 0xE2, CHR 0x80, CHR 0x81],
      [CHR 0xE2, CHR 0x80, CHR 0x82], [CHR 0xE2, CHR 0x80, CHR 0x83],
      [CHR 0xE2, CHR 0x80, CHR 0x84], [CHR 0xE2, CHR 0x80, CHR 0x85],
      [CHR 0xE2, CHR 0x80, CHR 0x86], [CHR 0xE2, CHR 0x80, CHR 0x87],
      [CHR 0xE2, CHR 0x80, CHR 0x88], [CHR 0xE2, CHR 0x80, CHR 0x89],
      [CHR 0xE2, CHR 0x80, CHR 0x8A], [CHR 0xE2, CHR 0x80, CHR 0xA8],
      [CHR 0xE2, CHR 0x80, CHR 0xA9], [CHR 0xE2, CHR 0x80, CHR 0xAF],
      [CHR 0xE2, CHR 0x81, CHR 0x9F], [CHR 0xE3, CHR 0x80, CHR 0x80]]"

fun strip_leading :: "string list \<Rightarrow> string \<Rightarrow> string" where
  "strip_leading ws [] = []"
| "strip_leading ws (c # cs) =
     (case find (\<lambda>w. w \<noteq> [] \<and> startswith (c # cs) w) ws of
        None \<Rightarrow> c # cs
      | Some w \<Rightarrow> strip_leading ws (drop (length w - 1) cs))"

definition lstrip :: "string \<Rightarrow> string" where
  "lstrip s = strip_leading whitespace s"

definition rstrip :: "string \<Rightarrow> string" where
  "rstrip s = rev (strip_leading (map rev whitespace) (rev s))"

definition strip :: "string \<Rightarrow> string" where
  "strip s = lstrip (rstrip s)"

fun split_newline :: "string \<Rightarrow> string list" where
  \<comment> \<open>\<open>s.split("\\n")\<close>\<close>
  "split_newline [] = [[]]"
| "split_newline (c # cs) =
     (if c = CHR 0x0A then [] # split_newline cs
      else (case split_newline cs of
              [] \<Rightarrow> [[c]]
            | line # lines \<Rightarrow> (c # line) # lines))"

fun after_colon :: "string \<Rightarrow> py_exn + string" where
  \<comment> \<open>\<open>s.split(":", 1)[1]\<close>: what follows the first colon; IndexError when there is none\<close>
  "after_colon [] = Inl (PyException ''IndexError'' ''list index out of range'')"
| "after_colon (c # cs) = (if c = CHR '':'' then Inr cs else after_colon cs)"

subsection \<open>Handlers as \<open>inspect.signature\<close> shows them\<close>

datatype annotation =
    A_empty
  | A_str
  | A_int
  | A_float
  | A_bool
  | A_List annotation
  | A_other string

record parameter =
  param_name :: string
  param_annotation :: annotation
  has_default :: bool

record py_method =
  signature :: "parameter list"
  doc :: "string option"

definition param_type :: "annotation \<Rightarrow> string \<times> string option" where
  \<comment> \<open>android_tools.py lines 106-124: \<open>param_type\<close>, and \<open>item_type\<close> where it is assigned\<close>
  "param_type a =
     (if a = A_empty then (''string'', None)
      else if a = A_str then (''string'', None)
      else if a = A_int then (''integer'', None)
      else if a = A_float then (''number'', None)
      else if a = A_bool then (''boolean'', None)
      else if a = A_List A_str then (''array'', Some ''string'')
      else if a = A_List A_int then (''array'', Some ''integer'')
      else (''string'', None))"

fun matching_line :: "string list \<Rightarrow> string \<Rightarrow> py_exn + string option" where
  \<comment> \<open>android_tools.py lines 137-141: the loop over the lines, left at the first match\<close>
  "matching_line [] pname = Inr None"
| "matching_line (line # lines) pname =
     (if startswith (strip line) (pname @ '':'')
      then (case after_colon (strip line) of Inl e \<Rightarrow> Inl e | Inr t \<Rightarrow> Inr (Some (strip t)))
      else matching_line lines pname)"

definition find_description :: "string option \<Rightarrow> string \<Rightarrow> py_exn + string option" where
  \<comment> \<open>android_tools.py lines 135-141\<close>
  "find_description d pname =
     (case d of
        None \<Rightarrow> Inr None
      | Some text \<Rightarrow>
          if text = [] then Inr None else matching_line (split_newline (strip text)) pname)"

definition param_property :: "py_method \<Rightarrow> parameter \<Rightarrow> py_exn + pyval" where
  \<comment> \<open>android_tools.py lines 126-141\<close>
  "param_property m p =
     (case find_description (doc m) (param_name p) of
        Inl e \<Rightarrow> Inl e
      | Inr descr \<Rightarrow>
          Inr (PDict
            ([(''type'', PStr (fst (param_type (param_annotation p))))] @
             (if fst (param_type (param_annotation p)) = ''array''
              then (case snd (param_type (param_annotation p)) of
                      None \<Rightarrow> []
                    | Some item_type \<Rightarrow> [(''items'', PDict [(''type'', PStr item_type)])])
              else []) @
             (case descr of None \<Rightarrow> [] | Some t \<Rightarrow> [(''description'', PStr t)]))))"

definition skipped :: "parameter \<Rightarrow> bool" where
  \<comment> \<open>android_tools.py line 102\<close>
  "skipped p = (param_name p = ''self'' \<or> param_name p = ''params'')"

fun schema_loop ::
  "py_method \<Rightarrow> parameter list \<Rightarrow> (string \<times> pyval) list \<Rightarrow> string list \<Rightarrow>
   py_exn + (string \<times> pyval) list \<times> string list" where
  \<comment> \<open>android_tools.py lines 100-148: the loop, with \<open>properties\<close> and \<open>required\<close>\<close>
  "schema_loop m [] properties required = Inr (properties, required)"
| "schema_loop m (p # ps) properties required =
     (if skipped p then schema_loop m ps properties required
      else
        (case param_property m p of
           Inl e \<Rightarrow> Inl e
         | Inr prop \<Rightarrow>
             schema_loop m ps (dict_set properties (param_name p) prop)
               (if has_default p then required else required @ [param_name p])))"

definition build_input_schema :: "py_method \<Rightarrow> py_exn + pyval" where
  \<comment> \<open>android_tools.py lines 84-158, \<open>_build_input_schema\<close>\<close>
  "build_input_schema m =
     (case schema_loop m (signature m) [] [] of
        Inl e \<Rightarrow> Inl e
      | Inr (properties, required) \<Rightarrow>
          Inr (PDict
            ([(''type'', PStr ''object''), (''properties'', PDict properties)] @
             (if required \<noteq> [] then [(''required'', PList (map PStr required))] else []))))"

text \<open>
  Reading a schema, and the two notions the specification uses: the parameters that are
  required, and whether the docstring documents a parameter (some line of the stripped
  docstring, itself stripped, starts with the parameter's name and a colon).
\<close>

definition property_of :: "pyval \<Rightarrow> string \<Rightarrow> (string \<times> pyval) list option" where
  "property_of schema pname =
     (case schema of
        PDict d \<Rightarrow>
          (case map_of d ''properties'' of
             Some (PDict props) \<Rightarrow>
               (case map_of props pname of Some (PDict prop) \<Rightarrow> Some prop | _ \<Rightarrow> None)
           | _ \<Rightarrow> None)
      | _ \<Rightarrow> None)"

definition required_of :: "pyval \<Rightarrow> pyval option" where
  "required_of schema = (case schema of PDict d \<Rightarrow> map_of d ''required'' | _ \<Rightarrow> None)"

definition required_params :: "py_method \<Rightarrow> string list" where
  "required_params m =
     map param_name (filter (\<lambda>q. \<not> skipped q \<and> \<not> has_default q) (signature m))"

definition documented :: "py_method \<Rightarrow> string \<Rightarrow> bool" where
  "documented m pname =
     (case doc m of
        None \<Rightarrow> False
      | Some text \<Rightarrow>
          text \<noteq> [] \<and>
          list_ex (\<lambda>line. startswith (strip line) (pname @ '':'')) (split_newline (strip text)))"

section \<open>A concrete runtime and concrete requests\<close>

text \<open>
  A runtime for evaluating the dispatcher on given requests. \<open>json.loads\<close> is given on
  one request text (its value there is the parsed document) and rejects every other
  text. The id check follows pydantic 1.x on \<open>Union[int, str]\<close>: an \<open>int\<close> is kept; a
  \<open>bool\<close> becomes 0 or 1; a \<open>str\<close> that \<open>int()\<close> accepts (white space around a sign and
  decimal digits, single underscores between the digits) becomes that \<open>int\<close> and any
  other \<open>str\<close> is kept; a float becomes the \<open>int\<close> it truncates to, or its \<open>str\<close> when it
  is infinite or not a number; a list, a dict and an object are rejected. Two cases are
  outside what is evaluated here and are rejected: a \<open>str\<close> with a character outside
  ASCII and no ASCII character other than digits, signs and underscores (\<open>int()\<close> accepts
  the decimal digits of every script), and a float of magnitude 1e16 or more, whose
  \<open>repr\<close> has a positive exponent and does not show the exact value. \<open>str()\<close> is Python's for \<open>None\<close>,
  a \<open>bool\<close>, an \<open>int\<close> and a float; for a list, a dict or an object it is a placeholder.
  The requests evaluated below carry the id 1.
\<close>

fun decimal :: "nat \<Rightarrow> string" where
  "decimal n =
     (if n < 10 then [''0123456789'' ! n]
      else decimal (n div 10) @ [''0123456789'' ! (n mod 10)])"

declare decimal.simps [simp del]

definition digit_of :: "char \<Rightarrow> nat option" where
  "digit_of c =
     map_of [(CHR ''0'', 0), (CHR ''1'', 1), (CHR ''2'', 2), (CHR ''3'', 3), (CHR ''4'', 4),
             (CHR ''5'', 5), (CHR ''6'', 6), (CHR ''7'', 7), (CHR ''8'', 8), (CHR ''9'', 9)] c"

fun digits_value :: "string \<Rightarrow> nat \<Rightarrow> nat option" where
  "digits_value [] acc = Some acc"
| "digits_value (c # cs) acc =
     (case digit_of c of None \<Rightarrow> None | Some d \<Rightarrow> digits_value cs (10 * acc + d))"

fun underscores_apart :: "string \<Rightarrow> bool" where
  \<comment> \<open>no underscore at the end and no two in a row\<close>
  "underscores_apart [] = True"
| "underscores_apart [c] = (c \<noteq> CHR ''_'')"
| "underscores_apart (c # d # cs) =
     (if c = CHR ''_'' \<and> d = CHR ''_'' then False else underscores_apart (d # cs))"

definition digits_int :: "string \<Rightarrow> nat option" where
  \<comment> \<open>decimal digits, with single underscores between them\<close>
  "digits_int b =
     (case b of
        [] \<Rightarrow> None
      | c # cs \<Rightarrow>
          if c = CHR ''_'' then None
          else if underscores_apart b then digits_value (filter (\<lambda>c. c \<noteq> CHR ''_'') b) 0
          else None)"

definition parse_int :: "string \<Rightarrow> int option" where
  \<comment> \<open>\<open>int(s)\<close> for a \<open>str\<close> of ASCII digits\<close>
  "parse_int s =
     (case strip s of
        [] \<Rightarrow> None
      | c # cs \<Rightarrow>
          if c = CHR ''-'' then map_option (\<lambda>n. - int n) (digits_int cs)
          else if c = CHR ''+'' then map_option int (digits_int cs)
          else map_option int (digits_int (c # cs)))"

definition float_int :: "string \<Rightarrow> int option" where
  \<comment> \<open>\<open>int(x)\<close> for a float given by its \<open>repr\<close>: the digits before the point; 0 when the
      exponent is negative\<close>
  "float_int r =
     (if CHR ''e'' \<in> set r
      then (if startswith (dropWhile (\<lambda>c. c \<noteq> CHR ''e'') r) ''e-'' then Some 0 else None)
      else parse_int (takeWhile (\<lambda>c. c \<noteq> CHR ''.'') r))"

definition beyond_ascii :: "string \<Rightarrow> bool" where
  \<comment> \<open>a character outside ASCII, and no ASCII character other than digits, signs and
      underscores\<close>
  "beyond_ascii s =
     (list_ex (\<lambda>c. 128 \<le> (of_char c :: nat)) (strip s) \<and>
      list_all (\<lambda>c. 128 \<le> (of_char c :: nat) \<or> c \<in> set ''0123456789+-_'') (strip s))"

definition example_validate_id :: "pyval \<Rightarrow> py_exn + id_value" where
  "example_validate_id v =
     (case v of
        PInt n \<Rightarrow> Inr (Id_int n)
      | PBool b \<Rightarrow> Inr (Id_int (if b then 1 else 0))
      | PStr s \<Rightarrow>
          (case parse_int s of
             Some n \<Rightarrow> Inr (Id_int n)
           | None \<Rightarrow>
               if beyond_ascii s
               then Inl (PyException ''ValidationError'' ''1 validation error for MCPResponse'')
               else Inr (Id_str s))
      | PFloat r \<Rightarrow>
          (case float_int r of
             Some n \<Rightarrow> Inr (Id_int n)
           | None \<Rightarrow>
               if r = ''inf'' \<or> r = ''-inf'' \<or> r = ''nan'' then Inr (Id_str r)
               else Inl (PyException ''ValidationError'' ''1 validation error for MCPResponse''))
      | _ \<Rightarrow> Inl (PyException ''ValidationError'' ''1 validation error for MCPResponse''))"

definition example_repr :: "pyval \<Rightarrow> string" where
  "example_repr v =
     (case v of
        PNone \<Rightarrow> ''None''
      | PBool b \<Rightarrow> (if b then ''True'' else ''False'')
      | PInt n \<Rightarrow> (if n < 0 then ''-'' @ decimal (nat (- n)) else decimal (nat n))
      | PFloat r \<Rightarrow> r
      | _ \<Rightarrow> ''<'' @ type_name v @ ''>'')"

definition example_env :: "string \<Rightarrow> pyval \<Rightarrow> pyenv" where
  "example_env text data =
     \<lparr>decode_utf8 = Inr,
      json_loads = (\<lambda>t. if t = text then Inr data
                         else Inl (PyException ''JSONDecodeError'' ''Expecting value'')),
      validate_id = example_validate_id,
      py_repr = example_repr,
      recursion_limit = 1000\<rparr>"

definition make_tool :: "string \<Rightarrow> handler \<Rightarrow> MCPTool" where
  "make_tool nm h = MCPTool_init nm [] h None None"

definition example_registry :: "string \<Rightarrow> handler \<Rightarrow> registry" where
  \<comment> \<open>a new server (\<open>__init__\<close> registers the core tools) with one tool registered\<close>
  "example_registry nm h = snd (register_tool (register_core_tools []) (make_tool nm h))"

definition request :: "int \<Rightarrow> string \<Rightarrow> pyval option \<Rightarrow> pyval" where
  \<comment> \<open>the document \<open>{"jsonrpc": "2.0", "id": ..., "method": ..., "params": ...}\<close>\<close>
  "request i m params =
     PDict ([(''jsonrpc'', PStr ''2.0''), (''id'', PInt i), (''method'', PStr m)] @
            (case params of None \<Rightarrow> [] | Some p \<Rightarrow> [(''params'', p)]))"

definition via_call :: "string \<Rightarrow> pyval \<Rightarrow> pyval" where
  \<comment> \<open>the params of \<open>tools/call\<close>: \<open>{"name": ..., "parameters": ...}\<close>\<close>
  "via_call nm p = PDict [(''name'', PStr nm), (''parameters'', p)]"

definition direct_text :: "string \<Rightarrow> string" where
  \<open>direct_text nm = ''{"jsonrpc": "2.0", "id": 1, "method": "tools/'' @ nm @ ''"}''\<close>

definition direct_env :: "string \<Rightarrow> pyenv" where
  "direct_env nm = example_env (direct_text nm) (request 1 (''tools/'' @ nm) None)"

definition via_call_text :: "string \<Rightarrow> string" where
  \<open>via_call_text nm =
     ''{"jsonrpc": "2.0", "id": 1, "method": "tools/call", "params": {"name": "'' @ nm @
     ''", "parameters": {}}}''\<close>

definition via_call_env :: "string \<Rightarrow> pyenv" where
  "via_call_env nm =
     example_env (via_call_text nm) (request 1 ''tools/call'' (Some (via_call nm (PDict []))))"


definition raises_mcp_error :: handler where
  "raises_mcp_error = Sync (\<lambda>params. Inl (MCPError ''quota exceeded'' (-32001)))"

definition returns_none :: handler where
  "returns_none = Sync (\<lambda>params. Inr PNone)"

definition async_pong :: handler where
  "async_pong = Async (\<lambda>params. Inr (PStr ''pong''))"

text \<open>
  A handler \<open>def tap(self, params, x: int, tags: List[str] = None)\<close> whose docstring has
  the lines \<open>Tap the screen\<close> and \<open>x: the abscissa\<close>, a handler with the single
  parameter \<open>xs: List[float]\<close> and no docstring, and a handler of the shape of every
  \<open>tool_*\<close> method of android_tools.py, \<open>def tool_get_size(self, params: Dict[str, Any])\<close>,
  as \<open>inspect.signature\<close> shows the bound method: without \<open>self\<close>.
\<close>

definition tap_method :: py_method where
  "tap_method =
     \<lparr>signature =
        [\<lparr>param_name = ''self'', param_annotation = A_empty, has_default = False\<rparr>,
         \<lparr>param_name = ''params'', param_annotation = A_other ''Dict[str, Any]'',
          has_default = False\<rparr>,
         \<lparr>param_name = ''x'', param_annotation = A_int, has_default = False\<rparr>,
         \<lparr>param_name = ''tags'', param_annotation = A_List A_str, has_default = True\<rparr>],
      doc = Some ([CHR 0x0A] @ ''    Tap the screen'' @ [CHR 0x0A, CHR 0x0A] @
                  ''    x: the abscissa'' @ [CHR 0x0A] @ ''    '')\<rparr>"

definition tool_get_size :: py_method where
  "tool_get_size =
     \<lparr>signature =
        [\<lparr>param_name = ''params'', param_annotation = A_other ''Dict[str, Any]'',
          has_default = False\<rparr>],
      doc = Some ([CHR 0x0A] @ ''        Get the screen size'' @ [CHR 0x0A, CHR 0x0A] @
                  ''        Returns:'' @ [CHR 0x0A] @ ''            the size'' @ [CHR 0x0A] @
                  ''        '')\<rparr>"

definition floats_method :: py_method where
  "floats_method =
     \<lparr>signature = [\<lparr>param_name = ''xs'', param_annotation = A_List A_float, has_default = False\<rparr>],
      doc = None\<rparr>"

text \<open>
  A handler registered under the name \<open>list\<close> that answers with a listing naming itself,
  and the three controllers of a shutdown: the hook of \<open>A\<close> raises OSError, the hook of
  \<open>X\<close> raises SystemExit, the hook of \<open>C\<close> counts its calls in the world.
\<close>

definition lists_itself :: handler where
  "lists_itself =
     Sync (\<lambda>params. Inr (PDict [(''tools'', PList [PDict [(''name'', PStr ''list'')]])]))"

definition controller_A :: "nat controller" where
  "controller_A =
     \<lparr>class_name = ''A'', cleanup_attr = Hook (\<lambda>w. (Some (PyException ''OSError'' ''gone''), w))\<rparr>"

definition controller_X :: "nat controller" where
  "controller_X =
     \<lparr>class_name = ''X'',
      cleanup_attr = Hook (\<lambda>w. (Some (PyBaseException ''SystemExit'' ''1''), w))\<rparr>"

definition controller_B :: "nat controller" where
  "controller_B = \<lparr>class_name = ''B'', cleanup_attr = No_attribute\<rparr>"

definition controller_C :: "nat controller" where
  "controller_C = \<lparr>class_name = ''C'', cleanup_attr = Hook (\<lambda>w. (None, Suc w))\<rparr>"


section \<open>Facts about dictionaries\<close>

lemma map_of_dict_set_same: "map_of (dict_set d k v) k = Some v"
  by (induction d) auto

lemma map_of_dict_set_other: "k' \<noteq> k \<Longrightarrow> map_of (dict_set d k v) k' = map_of d k'"
  by (induction d) auto

lemma keys_dict_set_present: "k \<in> fst ` set d \<Longrightarrow> map fst (dict_set d k v) = map fst d"
  by (induction d) force+

lemma keys_dict_set_absent: "k \<notin> fst ` set d \<Longrightarrow> map fst (dict_set d k v) = map fst d @ [k]"
  by (induction d) auto

lemma filter_dict_set_unlisted:
  "\<not> P k \<Longrightarrow> filter (\<lambda>kt. P (fst kt)) (dict_set d k v) = filter (\<lambda>kt. P (fst kt)) d"
  by (induction d) auto

lemma dict_set_key_present: "k \<in> fst ` set (dict_set d k v)"
  by (induction d) force+

lemma dict_set_keeps_keys: "k' \<in> fst ` set d \<Longrightarrow> k' \<in> fst ` set (dict_set d k v)"
  by (induction d) force+

section \<open>Registering over a built-in tool\<close>

lemma core_tools_keys:
  "''tools/list'' \<in> fst ` set (register_core_tools reg)"
  "''tools/call'' \<in> fst ` set (register_core_tools reg)"
  by (simp_all add: register_core_tools_def dict_set_key_present dict_set_keeps_keys)

lemma core_tools_lookup:
  "map_of (register_core_tools reg) ''tools/list'' =
     Some (MCPTool_init ''list'' desc_tools_list Builtin_tools_list None None)"
  "map_of (register_core_tools reg) ''tools/call'' =
     Some (MCPTool_init ''call'' desc_tools_call Builtin_tools_call (Some tools_call_schema) None)"
  by (simp_all add: register_core_tools_def map_of_dict_set_same map_of_dict_set_other)

lemma handle_tools_list_dict_set_unlisted:
  "\<not> listed k \<Longrightarrow> handle_tools_list (dict_set reg k tool) params = handle_tools_list reg params"
  by (simp add: handle_tools_list_def filter_dict_set_unlisted)

lemma dict_set_keeps_other: "(k', v') \<in> set d \<Longrightarrow> k' \<noteq> k \<Longrightarrow> (k', v') \<in> set (dict_set d k v)"
  by (induction d) auto

lemma dict_set_entries:
  "(k', v') \<in> set (dict_set d k v) \<Longrightarrow> (k', v') \<in> set d \<or> (k' = k \<and> v' = v)"
  by (induction d) (auto split: if_splits)

lemma dict_set_same_key:
  "distinct (map fst d) \<Longrightarrow> (k, v') \<in> set (dict_set d k v) \<Longrightarrow> v' = v"
proof (induction d)
  case Nil
  then show ?case by simp
next
  case (Cons kv d)
  obtain k1 v1 where kv: "kv = (k1, v1)"
    by (cases kv) auto
  show ?case
  proof (cases "k1 = k")
    case True
    with Cons.prems kv have "k \<notin> fst ` set d"
      by simp
    then have "(k, v') \<notin> set d"
      by force
    with Cons.prems(2) kv True show ?thesis
      by simp
  next
    case False
    with Cons kv show ?thesis
      by auto
  qed
qed

section \<open>Facts about the envelopes\<close>

lemma dict_get_present: "map_of d k = Some v \<Longrightarrow> dict_get d k dflt = v"
  by (simp add: dict_get_def)

lemma dict_get_absent: "map_of d k = None \<Longrightarrow> dict_get d k dflt = dflt"
  by (simp add: dict_get_def)

lemma id_pyval_serializable: "unserializable (id_pyval i) = None"
  by (cases i) simp_all

lemma validated_id_serializable:
  "validate_optional_id env request_id = Inr rid \<Longrightarrow> unserializable rid = None"
  by (auto simp: validate_optional_id_def id_pyval_serializable split: if_splits sum.splits)

lemma validate_optional_id_None: "validate_optional_id env PNone = Inr PNone"
  by (simp add: validate_optional_id_def)

lemma create_error_response_ok:
  "validate_optional_id env request_id = Inr rid \<Longrightarrow>
   create_error_response env request_id message code = Inr (error_envelope rid code message)"
  using validated_id_serializable [of env request_id rid]
  by (simp add: create_error_response_def json_response_def exclude_none_def error_envelope_def)

lemma create_success_response_ok:
  "validate_optional_id env request_id = Inr rid \<Longrightarrow> unserializable result = None \<Longrightarrow>
   create_success_response env request_id result = Inr (success_envelope rid result)"
  using validated_id_serializable [of env request_id rid]
  by (simp add: create_success_response_def json_response_def exclude_none_def
        success_envelope_def)

lemma create_success_response_unserializable:
  "validate_optional_id env request_id = Inr rid \<Longrightarrow> unserializable result = Some t \<Longrightarrow>
   create_success_response env request_id result = Inl (not_serializable_error t)"
  using validated_id_serializable [of env request_id rid]
  by (cases "result = PNone")
     (simp_all add: create_success_response_def json_response_def exclude_none_def)

lemma error_envelope_fields:
  "error_code (error_envelope rid code message) = Some (PInt code)"
  "error_message (error_envelope rid code message) = Some (PStr message)"
  "field (error_envelope rid code message) ''result'' = None"
  "field (error_envelope rid code message) ''error''
     = Some (PDict [(''code'', PInt code), (''message'', PStr message)])"
  "field (error_envelope rid code message) ''id'' = (if rid = PNone then None else Some rid)"
  by (simp_all add: error_envelope_def error_code_def error_message_def field_def
        exclude_none_def)

lemma success_envelope_fields:
  "field (success_envelope rid result) ''error'' = None"
  "field (success_envelope rid result) ''result'' = (if result = PNone then None else Some result)"
  "field (success_envelope rid result) ''id'' = (if rid = PNone then None else Some rid)"
  by (simp_all add: success_envelope_def field_def exclude_none_def)

section \<open>Facts about the dispatcher\<close>

lemma reraise_Inr: "snd out = Inr resp \<Longrightarrow> reraise env data out = out"
  by (simp add: reraise_def)

lemma handle_jsonrpc_dict:
  "body \<noteq> [] \<Longrightarrow> parse_body env body = Inr (PDict d) \<Longrightarrow>
   handle_jsonrpc env reg body = reraise env (PDict d) (handle_single_request env reg (PDict d))"
  by (simp add: handle_jsonrpc_def)

lemma single_request_found:
  assumes "map_of d ''jsonrpc'' = Some (PStr ''2.0'')" and "map_of d ''method'' = Some (PStr m)"
    and "map_of reg m = Some tool"
    and "call_handler env reg (tool_handler tool) (dict_get d ''params'' (PDict [])) = (lg, r)"
  shows "handle_single_request env reg (PDict d) =
     (case r of
        Inl e \<Rightarrow>
          (lg @ fst (request_failed env (dict_get d ''id'' PNone) (PStr m) e),
           snd (request_failed env (dict_get d ''id'' PNone) (PStr m) e))
      | Inr result \<Rightarrow>
          (case create_success_response env (dict_get d ''id'' PNone) result of
             Inr resp \<Rightarrow> (lg, Inr resp)
           | Inl e \<Rightarrow>
               (lg @ fst (request_failed env (dict_get d ''id'' PNone) (PStr m) e),
                snd (request_failed env (dict_get d ''id'' PNone) (PStr m) e))))"
  using assms
  by (simp add: handle_single_request_def dict_get_present Let_def split: prod.splits sum.splits)

lemma call_handler_user:
  "h = Sync f \<or> h = Async f \<Longrightarrow> call_handler env reg h p = ([], f p)"
  by (auto simp: call_handler_def)

lemma request_failed_exception:
  "validate_optional_id env request_id = Inr rid \<Longrightarrow>
   request_failed env request_id (PStr m) (PyException cls text) =
     ([(ERROR, log_request_open @ m @ log_request_error @ text)],
      Inr (error_envelope rid (-32603) (msg_server_internal @ text)))"
  by (simp add: request_failed_def create_error_response_ok)

lemma request_failed_mcp:
  "validate_optional_id env request_id = Inr rid \<Longrightarrow>
   request_failed env request_id (PStr m) (MCPError message code) =
     ([(WARNING, log_request_open @ m @ log_request_mcp @ message @ log_code_open @
                 py_str env (PInt code) @ '')'')],
      Inr (error_envelope rid code message))"
  by (simp add: request_failed_def create_error_response_ok)

lemma tools_call_sync:
  assumes "map_of p ''name'' = Some (PStr nm)" and "map_of reg (''tools/'' @ nm) = Some tool"
    and "tool_handler tool = Sync f"
  shows "handle_tools_call env depth reg (PDict p) =
     (case f (dict_get p ''parameters'' (PDict [])) of
        Inr result \<Rightarrow> ([], Inr (PDict [(''result'', result)]))
      | Inl e \<Rightarrow>
          if base_only e then ([], Inl e)
          else
            ([(ERROR, log_call_open @ nm @ log_request_error @ exn_str e)],
             Inl (MCPError (msg_tool_call_failed @ exn_str e) default_mcp_code)))"
  using assms
  by (simp add: handle_tools_call.simps py_get_def dict_get_present split: sum.splits)


lemma tools_call_async:
  assumes "map_of p ''name'' = Some (PStr nm)" and "map_of reg (''tools/'' @ nm) = Some tool"
    and "tool_handler tool = Async f"
  shows "handle_tools_call env depth reg (PDict p) =
     ([], Inr (PDict [(''result'', PObj ''coroutine'')]))"
  using assms
  by (simp add: handle_tools_call.simps py_get_def dict_get_present)

text \<open>
  A request whose envelope is valid, whose id passes validation and whose method is
  registered: what the response is, from what \<open>_call_handler\<close> gives.
\<close>

lemma dispatch_result:
  assumes "body \<noteq> []" and "parse_body env body = Inr (PDict d)"
    and "map_of d ''jsonrpc'' = Some (PStr ''2.0'')" and "map_of d ''method'' = Some (PStr m)"
    and "map_of reg m = Some tool"
    and "call_handler env reg (tool_handler tool) (dict_get d ''params'' (PDict [])) = (lg, Inr r)"
    and "unserializable r = None"
    and "validate_optional_id env (dict_get d ''id'' PNone) = Inr rid"
  shows "handle_jsonrpc env reg body = (lg, Inr (success_envelope rid r))"
proof -
  have "handle_single_request env reg (PDict d) = (lg, Inr (success_envelope rid r))"
    using assms(3-8) by (simp add: single_request_found create_success_response_ok)
  then show ?thesis
    using assms(1,2) by (simp add: handle_jsonrpc_dict reraise_Inr)
qed



text \<open>The same for a collaborator tool, addressed directly.\<close>

lemma direct_result:
  assumes "body \<noteq> []" and "parse_body env body = Inr (PDict d)"
    and "map_of d ''jsonrpc'' = Some (PStr ''2.0'')" and "map_of d ''method'' = Some (PStr m)"
    and "map_of reg m = Some tool"
    and "tool_handler tool = Sync f \<or> tool_handler tool = Async f"
    and "f (dict_get d ''params'' (PDict [])) = Inr r" and "unserializable r = None"
    and "validate_optional_id env (dict_get d ''id'' PNone) = Inr rid"
  shows "handle_jsonrpc env reg body = ([], Inr (success_envelope rid r))"
proof -
  have "call_handler env reg (tool_handler tool) (dict_get d ''params'' (PDict [])) = ([], Inr r)"
    using assms(6,7) by (simp add: call_handler_user)
  then have "handle_single_request env reg (PDict d) = ([], Inr (success_envelope rid r))"
    using assms(3-5,8,9) by (simp add: single_request_found create_success_response_ok)
  then show ?thesis
    using assms(1,2) by (simp add: handle_jsonrpc_dict reraise_Inr)
qed


lemma direct_mcp_error:
  assumes "body \<noteq> []" and "parse_body env body = Inr (PDict d)"
    and "map_of d ''jsonrpc'' = Some (PStr ''2.0'')" and "map_of d ''method'' = Some (PStr m)"
    and "map_of reg m = Some tool"
    and "tool_handler tool = Sync f \<or> tool_handler tool = Async f"
    and "f (dict_get d ''params'' (PDict [])) = Inl (MCPError message code)"
    and "validate_optional_id env (dict_get d ''id'' PNone) = Inr rid"
  shows "snd (handle_jsonrpc env reg body) = Inr (error_envelope rid code message)"
proof -
  have "call_handler env reg (tool_handler tool) (dict_get d ''params'' (PDict []))
      = ([], Inl (MCPError message code))"
    using assms(6,7) by (simp add: call_handler_user)
  then have "snd (handle_single_request env reg (PDict d)) = Inr (error_envelope rid code message)"
    using assms(3-5,8) by (simp add: single_request_found request_failed_mcp)
  then show ?thesis
    using assms(1,2) by (simp add: handle_jsonrpc_dict reraise_Inr)
qed

text \<open>The same tool addressed through the built-in \<open>tools/call\<close>.\<close>

lemma via_call_handler_result:
  assumes "body \<noteq> []" and "parse_body env body = Inr (PDict d)"
    and "map_of d ''jsonrpc'' = Some (PStr ''2.0'')"
    and "map_of d ''method'' = Some (PStr ''tools/call'')"
    and "map_of reg ''tools/call'' = Some call_tool"
    and "tool_handler call_tool = Builtin_tools_call"
    and "map_of d ''params'' = Some (PDict p)"
    and "validate_optional_id env (dict_get d ''id'' PNone) = Inr rid"
    and "handle_tools_call env (recursion_limit env) reg (PDict p) = (lg, Inr r)"
    and "unserializable r = None"
  shows "handle_jsonrpc env reg body = (lg, Inr (success_envelope rid r))"
proof -
  have "call_handler env reg (tool_handler call_tool) (dict_get d ''params'' (PDict []))
      = (lg, Inr r)"
    using assms(6,7,9) by (simp add: call_handler_def dict_get_present)
  then have "handle_single_request env reg (PDict d) = (lg, Inr (success_envelope rid r))"
    using assms(3-5,8,10) by (simp add: single_request_found create_success_response_ok)
  then show ?thesis
    using assms(1,2) by (simp add: handle_jsonrpc_dict reraise_Inr)
qed

lemma via_call_handler_error:
  assumes "body \<noteq> []" and "parse_body env body = Inr (PDict d)"
    and "map_of d ''jsonrpc'' = Some (PStr ''2.0'')"
    and "map_of d ''method'' = Some (PStr ''tools/call'')"
    and "map_of reg ''tools/call'' = Some call_tool"
    and "tool_handler call_tool = Builtin_tools_call"
    and "map_of d ''params'' = Some (PDict p)"
    and "validate_optional_id env (dict_get d ''id'' PNone) = Inr rid"
    and "handle_tools_call env (recursion_limit env) reg (PDict p) = (lg, Inl (MCPError message code))"
  shows "handle_jsonrpc env reg body =
     (lg @ [(WARNING, log_request_open @ ''tools/call'' @ log_request_mcp @ message @
                      log_code_open @ py_str env (PInt code) @ '')'')],
      Inr (error_envelope rid code message))"
proof -
  have "call_handler env reg (tool_handler call_tool) (dict_get d ''params'' (PDict []))
      = (lg, Inl (MCPError message code))"
    using assms(6,7,9) by (simp add: call_handler_def dict_get_present)
  then have "handle_single_request env reg (PDict d) =
     (lg @ [(WARNING, log_request_open @ ''tools/call'' @ log_request_mcp @ message @
                      log_code_open @ py_str env (PInt code) @ '')'')],
      Inr (error_envelope rid code message))"
    using assms(3-5,8) by (simp add: single_request_found request_failed_mcp)
  then show ?thesis
    using assms(1,2) by (simp add: handle_jsonrpc_dict reraise_Inr)
qed

lemma via_call_raises:
  assumes "body \<noteq> []" and "parse_body env body = Inr (PDict d)"
    and "map_of d ''jsonrpc'' = Some (PStr ''2.0'')"
    and "map_of d ''method'' = Some (PStr ''tools/call'')"
    and "map_of reg ''tools/call'' = Some call_tool"
    and "tool_handler call_tool = Builtin_tools_call"
    and "map_of d ''params'' = Some (PDict p)"
    and "validate_optional_id env (dict_get d ''id'' PNone) = Inr rid"
    and "map_of p ''name'' = Some (PStr nm)"
    and "map_of reg (''tools/'' @ nm) = Some tool"
    and "tool_handler tool = Sync f"
    and "f (dict_get p ''parameters'' (PDict [])) = Inl e" and "\<not> base_only e"
  shows "handle_jsonrpc env reg body =
     ([(ERROR, log_call_open @ nm @ log_request_error @ exn_str e),
       (WARNING, log_request_open @ ''tools/call'' @ log_request_mcp @
                 (msg_tool_call_failed @ exn_str e) @ log_code_open @
                 py_str env (PInt default_mcp_code) @ '')'')],
      Inr (error_envelope rid default_mcp_code (msg_tool_call_failed @ exn_str e)))"
proof -
  have "handle_tools_call env (recursion_limit env) reg (PDict p) =
     ([(ERROR, log_call_open @ nm @ log_request_error @ exn_str e)],
      Inl (MCPError (msg_tool_call_failed @ exn_str e) default_mcp_code))"
    using assms(9-13) by (simp add: tools_call_sync)
  from via_call_handler_error [OF assms(1-8) this] show ?thesis
    by simp
qed


lemma via_call_sync_result:
  assumes "body \<noteq> []" and "parse_body env body = Inr (PDict d)"
    and "map_of d ''jsonrpc'' = Some (PStr ''2.0'')"
    and "map_of d ''method'' = Some (PStr ''tools/call'')"
    and "map_of reg ''tools/call'' = Some call_tool"
    and "tool_handler call_tool = Builtin_tools_call"
    and "map_of d ''params'' = Some (PDict p)"
    and "validate_optional_id env (dict_get d ''id'' PNone) = Inr rid"
    and "map_of p ''name'' = Some (PStr nm)"
    and "map_of reg (''tools/'' @ nm) = Some tool"
    and "tool_handler tool = Sync f"
    and "f (dict_get p ''parameters'' (PDict [])) = Inr r" and "unserializable r = None"
  shows "handle_jsonrpc env reg body = ([], Inr (success_envelope rid (PDict [(''result'', r)])))"
proof -
  have "handle_tools_call env (recursion_limit env) reg (PDict p) =
     ([], Inr (PDict [(''result'', r)]))"
    using assms(9-12) by (simp add: tools_call_sync)
  moreover have "unserializable (PDict [(''result'', r)]) = None"
    using assms(13) by simp
  ultimately show ?thesis
    using via_call_handler_result [OF assms(1-8)] by simp
qed

lemma via_call_async:
  assumes "body \<noteq> []" and "parse_body env body = Inr (PDict d)"
    and "map_of d ''jsonrpc'' = Some (PStr ''2.0'')"
    and "map_of d ''method'' = Some (PStr ''tools/call'')"
    and "map_of reg ''tools/call'' = Some call_tool"
    and "tool_handler call_tool = Builtin_tools_call"
    and "map_of d ''params'' = Some (PDict p)"
    and "validate_optional_id env (dict_get d ''id'' PNone) = Inr rid"
    and "map_of p ''name'' = Some (PStr nm)"
    and "map_of reg (''tools/'' @ nm) = Some tool"
    and "tool_handler tool = Async f"
  shows "snd (handle_jsonrpc env reg body) =
     Inr (error_envelope rid (-32603)
            (msg_server_internal @ ''Object of type coroutine is not JSON serializable''))"
proof -
  have "call_handler env reg (tool_handler call_tool) (dict_get d ''params'' (PDict []))
      = ([], Inr (PDict [(''result'', PObj ''coroutine'')]))"
    using assms(6,7,9-11) by (simp add: call_handler_def dict_get_present tools_call_async)
  moreover have "create_success_response env (dict_get d ''id'' PNone)
      (PDict [(''result'', PObj ''coroutine'')]) = Inl (not_serializable_error ''coroutine'')"
    using assms(8) by (simp add: create_success_response_unserializable)
  ultimately have "snd (handle_single_request env reg (PDict d)) =
     Inr (error_envelope rid (-32603)
            (msg_server_internal @ ''Object of type coroutine is not JSON serializable''))"
    using assms(3-5,8)
    by (simp add: single_request_found request_failed_exception not_serializable_error_def)
  then show ?thesis
    using assms(1,2) by (simp add: handle_jsonrpc_dict reraise_Inr)
qed

text \<open>
  When the response model rejects the id of the request (a list or an object, say), the
  error response cannot be built either: the ValidationError leaves \<open>handle_jsonrpc\<close>.
\<close>

lemma rejected_id_escapes:
  assumes "body \<noteq> []" and "parse_body env body = Inr (PDict d)"
    and "map_of d ''jsonrpc'' = Some (PStr ''2.0'')" and "map_of d ''method'' = Some (PStr m)"
    and "map_of reg m = Some tool"
    and "tool_handler tool = Sync f \<or> tool_handler tool = Async f"
    and "f (dict_get d ''params'' (PDict [])) = Inl (PyException cls detail)"
    and "validate_optional_id env (dict_get d ''id'' PNone) = Inl (PyException vcls vtext)"
  shows "snd (handle_jsonrpc env reg body) = Inl (PyException vcls vtext)"
proof -
  have "call_handler env reg (tool_handler tool) (dict_get d ''params'' (PDict []))
      = ([], Inl (PyException cls detail))"
    using assms(6,7) by (simp add: call_handler_user)
  then have "snd (handle_single_request env reg (PDict d)) = Inl (PyException vcls vtext)"
    using assms(3-5,8)
    by (simp add: single_request_found request_failed_def create_error_response_def)
  then show ?thesis
    using assms(1,2,8)
    by (simp add: handle_jsonrpc_dict reraise_def jsonrpc_failed_def id_of_data_def
          create_error_response_def split: prod.splits)
qed


section \<open>Facts about the concrete runtime\<close>

lemma example_parse: "text \<noteq> [] \<Longrightarrow> parse_body (example_env text data) text = Inr data"
  by (simp add: parse_body_def example_env_def)

lemma example_validate_int:
  "validate_optional_id (example_env text data) (PInt i) = Inr (PInt i)"
  by (simp add: validate_optional_id_def example_env_def example_validate_id_def)

lemma direct_text_nonempty: "direct_text nm \<noteq> []"
  by (simp add: direct_text_def)

lemma via_call_text_nonempty: "via_call_text nm \<noteq> []"
  by (simp add: via_call_text_def)

lemmas example_facts =
  example_parse example_validate_int direct_text_nonempty via_call_text_nonempty
  direct_env_def via_call_env_def request_def via_call_def dict_get_def
  example_registry_def register_tool_def register_core_tools_def make_tool_def
  MCPTool_init_def falsy_to_empty_dict_def

section \<open>C1: a handler raises an exception that is not an MCPError\<close>




section \<open>C3: empty and malformed bodies\<close>

lemma empty_body:
  "handle_jsonrpc env reg [] = ([], Inr (error_envelope PNone (-32600) msg_empty_request))"
  by (simp add: handle_jsonrpc_def create_error_response_ok validate_optional_id_None
        reraise_Inr)

lemma malformed_body:
  assumes "body \<noteq> []" and "decode_utf8 env body = Inr text"
    and "json_loads env text = Inl (PyException ''JSONDecodeError'' why)"
  shows "handle_jsonrpc env reg body = ([], Inr (error_envelope PNone (-32700) msg_invalid_json))"
  using assms
  by (simp add: handle_jsonrpc_def parse_body_def is_json_decode_error_def
        create_error_response_ok validate_optional_id_None reraise_Inr)

lemma undecodable_body:
  assumes "body \<noteq> []" and "decode_utf8 env body = Inl (PyException cls why)"
    and "cls \<noteq> ''JSONDecodeError''"
  shows "handle_jsonrpc env reg body =
     ([(ERROR, log_uncaught @ why)], Inr (error_envelope PNone (-32603) ''Internal error''))"
  using assms
  by (simp add: handle_jsonrpc_def parse_body_def is_json_decode_error_def reraise_def
        jsonrpc_failed_def id_of_data_def create_error_response_ok validate_optional_id_None)

text \<open>
  C3, as amended. An empty body gets the error envelope with code InvalidRequest
  (-32600), by the guard of lines 193-194. A body that is not empty, decodes as UTF-8
  and is rejected by \<open>json.loads\<close> with JSONDecodeError gets the error envelope with
  code ParseError (-32700). In both the id is \<open>None\<close>, so the envelope carries no
  \<open>id\<close> field.
\<close>

theorem parse_failure_response:
  "(body = [] \<longrightarrow>
      handle_jsonrpc env reg body = ([], Inr (error_envelope PNone (-32600) msg_empty_request)))
   \<and> (body \<noteq> [] \<and> decode_utf8 env body = Inr text \<and>
       json_loads env text = Inl (PyException ''JSONDecodeError'' why) \<longrightarrow>
      handle_jsonrpc env reg body = ([], Inr (error_envelope PNone (-32700) msg_invalid_json)))
   \<and> error_code (error_envelope PNone code message) = Some (PInt code)
   \<and> field (error_envelope PNone code message) ''id'' = None"
  by (simp add: empty_body malformed_body error_envelope_fields)

theorem parse_failure_response_witness:
  "handle_jsonrpc (example_env ''{}'' (PDict [])) (register_core_tools []) []
     = ([], Inr (error_envelope PNone (-32600) msg_empty_request))
   \<and> ''{oops'' \<noteq> []
   \<and> decode_utf8 (example_env ''{}'' (PDict [])) ''{oops'' = Inr ''{oops''
   \<and> json_loads (example_env ''{}'' (PDict [])) ''{oops''
       = Inl (PyException ''JSONDecodeError'' ''Expecting value'')
   \<and> handle_jsonrpc (example_env ''{}'' (PDict [])) (register_core_tools []) ''{oops''
     = ([], Inr (error_envelope PNone (-32700) msg_invalid_json))"
  using parse_failure_response [of "[]" "example_env ''{}'' (PDict [])" "register_core_tools []"
      "[]" "[]" 0 "[]"]
    parse_failure_response [of "''{oops''" "example_env ''{}'' (PDict [])"
      "register_core_tools []" "''{oops''" "''Expecting value''" 0 "[]"]
  by (simp add: example_env_def)

theorem empty_body_counterexample:
  "snd (handle_jsonrpc (example_env ''{}'' (PDict [])) (register_core_tools []) []) =
     Inr \<lparr>content = PDict [(''jsonrpc'', PStr ''2.0''),
             (''error'', PDict [(''code'', PInt (-32600)),
                                (''message'', PStr msg_empty_request)])],
          media_type = ''application/json''\<rparr>"
  by (simp add: empty_body error_envelope_def exclude_none_def)

section \<open>C4: a handler raises an MCPError\<close>

text \<open>
  C4. A tool whose handler raises \<open>MCPError("quota exceeded", -32001)\<close> is registered as
  \<open>limited\<close> on a new server. Addressed directly, the error envelope carries the code
  and the message of the exception. Addressed through \<open>tools/call\<close>, the \<open>except
  Exception\<close> clause of line 341 catches the MCPError and raises another with the default
  code: the envelope carries -32000 and the literal of line 343 before the message.
\<close>

theorem mcp_error_through_tools_call:
  "snd (handle_jsonrpc (direct_env ''limited'') (example_registry ''limited'' raises_mcp_error)
          (direct_text ''limited'')) =
     Inr \<lparr>content = PDict [(''jsonrpc'', PStr ''2.0''), (''id'', PInt 1),
             (''error'', PDict [(''code'', PInt (-32001)),
                                (''message'', PStr ''quota exceeded'')])],
          media_type = ''application/json''\<rparr>
   \<and> snd (handle_jsonrpc (via_call_env ''limited'')
          (example_registry ''limited'' raises_mcp_error) (via_call_text ''limited'')) =
     Inr \<lparr>content = PDict [(''jsonrpc'', PStr ''2.0''), (''id'', PInt 1),
             (''error'', PDict [(''code'', PInt (-32000)),
                                (''message'', PStr (msg_tool_call_failed @ ''quota exceeded''))])],
          media_type = ''application/json''\<rparr>"
proof
  have "snd (handle_jsonrpc (direct_env ''limited'')
        (example_registry ''limited'' raises_mcp_error) (direct_text ''limited'')) =
     Inr (error_envelope (PInt 1) (-32001) ''quota exceeded'')"
    by (rule direct_mcp_error [where d = "[(''jsonrpc'', PStr ''2.0''), (''id'', PInt 1),
            (''method'', PStr ''tools/limited'')]"
          and tool = "make_tool ''limited'' raises_mcp_error" and m = "''tools/limited''"
          and f = "\<lambda>params. Inl (MCPError ''quota exceeded'' (-32001))"])
       (simp_all add: example_facts raises_mcp_error_def)
  then show "snd (handle_jsonrpc (direct_env ''limited'')
        (example_registry ''limited'' raises_mcp_error) (direct_text ''limited'')) =
     Inr \<lparr>content = PDict [(''jsonrpc'', PStr ''2.0''), (''id'', PInt 1),
             (''error'', PDict [(''code'', PInt (-32001)),
                                (''message'', PStr ''quota exceeded'')])],
          media_type = ''application/json''\<rparr>"
    by (simp add: error_envelope_def exclude_none_def)
next
  have "handle_jsonrpc (via_call_env ''limited'') (example_registry ''limited'' raises_mcp_error)
          (via_call_text ''limited'') =
     ([(ERROR, log_call_open @ ''limited'' @ log_request_error
                 @ exn_str (MCPError ''quota exceeded'' (-32001))),
       (WARNING, log_request_open @ ''tools/call'' @ log_request_mcp @
                 (msg_tool_call_failed @ exn_str (MCPError ''quota exceeded'' (-32001))) @
                 log_code_open @ py_str (via_call_env ''limited'') (PInt default_mcp_code) @
                 '')'')],
      Inr (error_envelope (PInt 1) default_mcp_code
             (msg_tool_call_failed @ exn_str (MCPError ''quota exceeded'' (-32001)))))"
    by (rule via_call_raises [where d = "[(''jsonrpc'', PStr ''2.0''), (''id'', PInt 1),
            (''method'', PStr ''tools/call''),
            (''params'', PDict [(''name'', PStr ''limited''), (''parameters'', PDict [])])]"
          and p = "[(''name'', PStr ''limited''), (''parameters'', PDict [])]"
          and tool = "make_tool ''limited'' raises_mcp_error"
          and call_tool = "MCPTool_init ''call'' desc_tools_call Builtin_tools_call
              (Some tools_call_schema) None"
          and f = "\<lambda>params. Inl (MCPError ''quota exceeded'' (-32001))"
          and e = "MCPError ''quota exceeded'' (-32001)"])
       (simp_all add: example_facts raises_mcp_error_def)
  then show "snd (handle_jsonrpc (via_call_env ''limited'')
        (example_registry ''limited'' raises_mcp_error) (via_call_text ''limited'')) =
     Inr \<lparr>content = PDict [(''jsonrpc'', PStr ''2.0''), (''id'', PInt 1),
             (''error'', PDict [(''code'', PInt (-32000)),
                                (''message'', PStr (msg_tool_call_failed @ ''quota exceeded''))])],
          media_type = ''application/json''\<rparr>"
    by (simp add: error_envelope_def exclude_none_def default_mcp_code_def)
qed

section \<open>C2: the two ways to address a tool\<close>

text \<open>
  For an ordinary handler that returns a serialisable value, the direct call answers
  with that value and \<open>tools/call\<close> with the value under the key \<open>result\<close>.
\<close>

lemma dual_addressing_sync:
  assumes "b1 \<noteq> []" and "parse_body env b1 = Inr (PDict d1)"
    and "map_of d1 ''jsonrpc'' = Some (PStr ''2.0'')"
    and "map_of d1 ''method'' = Some (PStr (''tools/'' @ nm))"
    and "dict_get d1 ''params'' (PDict []) = args"
    and "validate_optional_id env (dict_get d1 ''id'' PNone) = Inr rid1"
    and "b2 \<noteq> []" and "parse_body env b2 = Inr (PDict d2)"
    and "map_of d2 ''jsonrpc'' = Some (PStr ''2.0'')"
    and "map_of d2 ''method'' = Some (PStr ''tools/call'')"
    and "map_of d2 ''params'' = Some (PDict [(''name'', PStr nm), (''parameters'', args)])"
    and "validate_optional_id env (dict_get d2 ''id'' PNone) = Inr rid2"
    and "map_of reg ''tools/call'' = Some call_tool"
    and "tool_handler call_tool = Builtin_tools_call"
    and "map_of reg (''tools/'' @ nm) = Some tool"
    and "tool_handler tool = Sync f"
    and "f args = Inr r" and "unserializable r = None"
  shows "snd (handle_jsonrpc env reg b1) = Inr (success_envelope rid1 r)
       \<and> snd (handle_jsonrpc env reg b2) = Inr (success_envelope rid2 (PDict [(''result'', r)]))"
proof
  show "snd (handle_jsonrpc env reg b1) = Inr (success_envelope rid1 r)"
    using direct_result [OF assms(1-4) assms(15) _ _ assms(18) assms(6), of f] assms(5,16,17)
    by simp
next
  have "handle_jsonrpc env reg b2 = ([], Inr (success_envelope rid2 (PDict [(''result'', r)])))"
    by (rule via_call_sync_result [OF assms(7-10) assms(13,14) assms(11,12) _ assms(15,16) _
          assms(18)])
       (simp_all add: assms(17) dict_get_def)
  then show "snd (handle_jsonrpc env reg b2)
      = Inr (success_envelope rid2 (PDict [(''result'', r)]))"
    by simp
qed

text \<open>
  C2. The handler \<open>async def pong(params): return "pong"\<close> is registered as \<open>pong\<close> on a
  new server. Addressed directly, \<open>_call_handler\<close> awaits it and the response carries
  the result \<open>"pong"\<close>. Addressed through \<open>tools/call\<close>, line 339 calls it without
  awaiting: the result is a coroutine object, \<open>json.dumps\<close> raises TypeError, and the
  response is an error envelope with code -32603.
\<close>

theorem async_tool_through_tools_call:
  "snd (handle_jsonrpc (direct_env ''pong'') (example_registry ''pong'' async_pong)
          (direct_text ''pong'')) =
     Inr \<lparr>content = PDict [(''jsonrpc'', PStr ''2.0''), (''id'', PInt 1),
             (''result'', PStr ''pong'')],
          media_type = ''application/json''\<rparr>
   \<and> snd (handle_jsonrpc (via_call_env ''pong'') (example_registry ''pong'' async_pong)
          (via_call_text ''pong'')) =
     Inr \<lparr>content = PDict [(''jsonrpc'', PStr ''2.0''), (''id'', PInt 1),
             (''error'', PDict [(''code'', PInt (-32603)),
                (''message'', PStr (msg_server_internal @
                    ''Object of type coroutine is not JSON serializable''))])],
          media_type = ''application/json''\<rparr>"
proof
  have "handle_jsonrpc (direct_env ''pong'') (example_registry ''pong'' async_pong)
          (direct_text ''pong'') = ([], Inr (success_envelope (PInt 1) (PStr ''pong'')))"
    by (rule direct_result [where d = "[(''jsonrpc'', PStr ''2.0''), (''id'', PInt 1),
            (''method'', PStr ''tools/pong'')]"
          and tool = "make_tool ''pong'' async_pong" and m = "''tools/pong''"
          and f = "\<lambda>params. Inr (PStr ''pong'')"])
       (simp_all add: example_facts async_pong_def)
  then show "snd (handle_jsonrpc (direct_env ''pong'') (example_registry ''pong'' async_pong)
          (direct_text ''pong'')) =
     Inr \<lparr>content = PDict [(''jsonrpc'', PStr ''2.0''), (''id'', PInt 1),
             (''result'', PStr ''pong'')],
          media_type = ''application/json''\<rparr>"
    by (simp add: success_envelope_def exclude_none_def)
next
  have "snd (handle_jsonrpc (via_call_env ''pong'') (example_registry ''pong'' async_pong)
          (via_call_text ''pong'')) =
     Inr (error_envelope (PInt 1) (-32603)
            (msg_server_internal @ ''Object of type coroutine is not JSON serializable''))"
    by (rule via_call_async [where d = "[(''jsonrpc'', PStr ''2.0''), (''id'', PInt 1),
            (''method'', PStr ''tools/call''),
            (''params'', PDict [(''name'', PStr ''pong''), (''parameters'', PDict [])])]"
          and p = "[(''name'', PStr ''pong''), (''parameters'', PDict [])]"
          and tool = "make_tool ''pong'' async_pong" and nm = "''pong''"
          and call_tool = "MCPTool_init ''call'' desc_tools_call Builtin_tools_call
              (Some tools_call_schema) None"
          and f = "\<lambda>params. Inr (PStr ''pong'')"])
       (simp_all add: example_facts async_pong_def)
  then show "snd (handle_jsonrpc (via_call_env ''pong'') (example_registry ''pong'' async_pong)
          (via_call_text ''pong'')) =
     Inr \<lparr>content = PDict [(''jsonrpc'', PStr ''2.0''), (''id'', PInt 1),
             (''error'', PDict [(''code'', PInt (-32603)),
                (''message'', PStr (msg_server_internal @
                    ''Object of type coroutine is not JSON serializable''))])],
          media_type = ''application/json''\<rparr>"
    by (simp add: error_envelope_def exclude_none_def)
qed

section \<open>C5: result and error in an envelope\<close>

text \<open>
  What the two constructors give: an error response has the field \<open>error\<close> and no
  \<open>result\<close>; a success response has no \<open>error\<close>, and its \<open>result\<close> field is missing
  exactly when the result is \<open>None\<close>.
\<close>

lemma error_response_fields:
  assumes "create_error_response env request_id message code = Inr resp"
  shows "field resp ''error'' \<noteq> None \<and> field resp ''result'' = None"
proof (cases "validate_optional_id env request_id")
  case (Inl e)
  with assms show ?thesis by (simp add: create_error_response_def)
next
  case (Inr rid)
  with assms have "resp = error_envelope rid code message"
    by (simp add: create_error_response_ok)
  then show ?thesis
    by (simp add: error_envelope_fields)
qed

lemma success_response_fields:
  assumes "create_success_response env request_id result = Inr resp"
  shows "field resp ''error'' = None \<and> (field resp ''result'' = None \<longleftrightarrow> result = PNone)"
proof (cases "validate_optional_id env request_id")
  case (Inl e)
  with assms show ?thesis by (simp add: create_success_response_def)
next
  case (Inr rid)
  show ?thesis
  proof (cases "unserializable result")
    case None
    with Inr assms have "resp = success_envelope rid result"
      by (simp add: create_success_response_ok)
    then show ?thesis
      by (simp add: success_envelope_fields)
  next
    case (Some t)
    with Inr assms show ?thesis
      by (simp add: create_success_response_unserializable)
  qed
qed

text \<open>
  C5. The handler \<open>return None\<close> is registered as \<open>noop\<close> on a new server and called
  directly. The response is a success, and \<open>exclude_none\<close> drops its \<open>result\<close> field as
  it drops the unused \<open>error\<close> field: the envelope has neither.
\<close>

theorem none_result_envelope:
  "snd (handle_jsonrpc (direct_env ''noop'') (example_registry ''noop'' returns_none)
          (direct_text ''noop'')) =
     Inr \<lparr>content = PDict [(''jsonrpc'', PStr ''2.0''), (''id'', PInt 1)],
          media_type = ''application/json''\<rparr>"
proof -
  have "handle_jsonrpc (direct_env ''noop'') (example_registry ''noop'' returns_none)
          (direct_text ''noop'') = ([], Inr (success_envelope (PInt 1) PNone))"
    by (rule direct_result [where d = "[(''jsonrpc'', PStr ''2.0''), (''id'', PInt 1),
            (''method'', PStr ''tools/noop'')]"
          and tool = "make_tool ''noop'' returns_none" and m = "''tools/noop''"
          and f = "\<lambda>params. Inr PNone"])
       (simp_all add: example_facts returns_none_def)
  then show ?thesis
    by (simp add: success_envelope_def exclude_none_def)
qed

section \<open>C10: a tool registered under the name of a built-in\<close>

lemma builtin_key_unlisted:
  "tool_name tool = ''list'' \<or> tool_name tool = ''call'' \<Longrightarrow> \<not> listed (''tools/'' @ tool_name tool)"
  by (auto simp: listed_def)

lemma listed_not_builtin: "listed k \<Longrightarrow> k \<noteq> ''tools/list'' \<and> k \<noteq> ''tools/call''"
  by (simp add: listed_def)

lemma listing_after_builtin_name:
  assumes "tool_name tool = ''list'' \<or> tool_name tool = ''call''"
  shows "filter (\<lambda>kt. listed (fst kt)) (snd (register_tool reg tool))
           = filter (\<lambda>kt. listed (fst kt)) reg"
  using builtin_key_unlisted [OF assms] by (simp add: register_tool_def filter_dict_set_unlisted)

lemma listed_entry_kept:
  assumes "listed k" and "map_of reg k = Some t"
  shows "t \<in> set (map snd (filter (\<lambda>kt. listed (fst kt)) reg))"
proof -
  from assms(2) have "(k, t) \<in> set reg"
    by (rule map_of_SomeD)
  with assms(1) have "(k, t) \<in> set (filter (\<lambda>kt. listed (fst kt)) reg)"
    by simp
  then show ?thesis
    by force
qed

lemma listed_names:
  assumes "\<forall>kt \<in> set reg. fst kt = ''tools/'' @ tool_name (snd kt)"
    and "t \<in> set (map snd (filter (\<lambda>kt. listed (fst kt)) reg))"
  shows "tool_name t \<noteq> ''list'' \<and> tool_name t \<noteq> ''call''"
proof -
  from assms(2) obtain k where "(k, t) \<in> set reg" and "listed k"
    by auto
  with assms(1) have "k = ''tools/'' @ tool_name t" and "k \<noteq> ''tools/list'' \<and> k \<noteq> ''tools/call''"
    by (auto simp: listed_def)
  then show ?thesis
    by auto
qed

lemma list_request_after_call_replaced:
  assumes "tool_name tool = ''call''"
    and "body \<noteq> []" and "parse_body env body = Inr (PDict d)"
    and "map_of d ''jsonrpc'' = Some (PStr ''2.0'')"
    and "map_of d ''method'' = Some (PStr ''tools/list'')"
    and "validate_optional_id env (dict_get d ''id'' PNone) = Inr rid"
    and "map_of reg ''tools/list'' = Some list_tool"
    and "tool_handler list_tool = Builtin_tools_list"
    and "unserializable (handle_tools_list reg (dict_get d ''params'' (PDict []))) = None"
  shows "handle_jsonrpc env (snd (register_tool reg tool)) body
           = ([], Inr (success_envelope rid
                         (handle_tools_list reg (dict_get d ''params'' (PDict [])))))"
proof -
  let ?reg = "snd (register_tool reg tool)"
  let ?params = "dict_get d ''params'' (PDict [])"
  have same: "handle_tools_list ?reg ?params = handle_tools_list reg ?params"
    using assms(1) by (simp add: handle_tools_list_def listing_after_builtin_name)
  have "map_of ?reg ''tools/list'' = Some list_tool"
    using assms(1,7) by (simp add: register_tool_def map_of_dict_set_other)
  moreover have "call_handler env ?reg (tool_handler list_tool) ?params
      = ([], Inr (handle_tools_list reg ?params))"
    using assms(8) same by (simp add: call_handler_def)
  ultimately show ?thesis
    using assms(2-6,9) by (intro dispatch_result) auto
qed

lemma list_request_after_list_replaced:
  assumes "tool_name tool = ''list''"
    and "body \<noteq> []" and "parse_body env body = Inr (PDict d)"
    and "map_of d ''jsonrpc'' = Some (PStr ''2.0'')"
    and "map_of d ''method'' = Some (PStr ''tools/list'')"
    and "validate_optional_id env (dict_get d ''id'' PNone) = Inr rid"
    and "tool_handler tool = Sync f \<or> tool_handler tool = Async f"
    and "f (dict_get d ''params'' (PDict [])) = Inr r" and "unserializable r = None"
  shows "handle_jsonrpc env (snd (register_tool reg tool)) body
           = ([], Inr (success_envelope rid r))"
proof -
  have "map_of (snd (register_tool reg tool)) ''tools/list'' = Some tool"
    using assms(1) by (simp add: register_tool_def map_of_dict_set_same)
  with assms(2-5) show ?thesis
    using assms(7,8,9,6) by (rule direct_result)
qed

lemma list_through_call_after_list_replaced:
  assumes "tool_name tool = ''list''"
    and "body \<noteq> []" and "parse_body env body = Inr (PDict d)"
    and "map_of d ''jsonrpc'' = Some (PStr ''2.0'')"
    and "map_of d ''method'' = Some (PStr ''tools/call'')"
    and "validate_optional_id env (dict_get d ''id'' PNone) = Inr rid"
    and "map_of reg ''tools/call'' = Some call_tool"
    and "tool_handler call_tool = Builtin_tools_call"
    and "map_of d ''params'' = Some (PDict p)" and "map_of p ''name'' = Some (PStr ''list'')"
    and "tool_handler tool = Sync f"
    and "f (dict_get p ''parameters'' (PDict [])) = Inr r" and "unserializable r = None"
  shows "handle_jsonrpc env (snd (register_tool reg tool)) body
           = ([], Inr (success_envelope rid (PDict [(''result'', r)])))"
proof -
  let ?reg = "snd (register_tool reg tool)"
  have "map_of ?reg ''tools/call'' = Some call_tool"
    using assms(1,7) by (simp add: register_tool_def map_of_dict_set_other)
  moreover have "map_of ?reg (''tools/'' @ ''list'') = Some tool"
    using assms(1) by (simp add: register_tool_def map_of_dict_set_same)
  ultimately show ?thesis
    using assms(2-6,8-13)
    by (intro via_call_sync_result [where nm = "''list''" and p = p and f = f and tool = tool
          and call_tool = call_tool and d = d]) auto
qed

lemma builtin_listing_unreachable:
  assumes "tool_name tool = ''list''" and "tool_handler tool \<noteq> Builtin_tools_list"
    and "distinct (map fst reg)"
    and "\<forall>kt \<in> set reg. tool_handler (snd kt) = Builtin_tools_list \<longrightarrow> fst kt = ''tools/list''"
  shows "\<forall>kt \<in> set (snd (register_tool reg tool)). tool_handler (snd kt) \<noteq> Builtin_tools_list"
proof
  fix kt
  assume "kt \<in> set (snd (register_tool reg tool))"
  then have stored: "(fst kt, snd kt) \<in> set (dict_set reg ''tools/list'' tool)"
    using assms(1) by (simp add: register_tool_def)
  show "tool_handler (snd kt) \<noteq> Builtin_tools_list"
  proof
    assume builtin: "tool_handler (snd kt) = Builtin_tools_list"
    from stored have "(fst kt, snd kt) \<in> set reg \<or> (fst kt = ''tools/list'' \<and> snd kt = tool)"
      by (rule dict_set_entries)
    with builtin assms(2,4) have "fst kt = ''tools/list''"
      by auto
    with stored have "(''tools/list'', snd kt) \<in> set (dict_set reg ''tools/list'' tool)"
      by simp
    with assms(3) have "snd kt = tool"
      by (rule dict_set_same_key)
    with builtin assms(2) show False
      by simp
  qed
qed

text \<open>
  C10, as amended. The registry key of a tool is \<open>tools/<name>\<close>, so registering a tool
  named \<open>list\<close> or \<open>call\<close> puts it under the key of the built-in, in place of the
  built-in when the registry holds it (the keys are unchanged and the only log entry is
  the usual INFO line). The built-in listing \<open>_handle_tools_list\<close> gives the entry of
  every tool registered under a key \<open>tools/...\<close> other than the two fixed keys, so the
  replacement is not among them, and no listed tool is named \<open>list\<close> or \<open>call\<close> when
  every tool is under the key of its name.
  \<^item> After a tool named \<open>call\<close> is registered, a \<open>tools/list\<close> request is still answered by
    the built-in listing, which is the same as before: the replacement is omitted.
  \<^item> After a tool named \<open>list\<close> is registered, the built-in listing answers no request
    any more: it is the handler of no registered tool (in a registry that had it under
    \<open>tools/list\<close> only, each key once), and a \<open>tools/list\<close> request, as a \<open>tools/call\<close>
    request naming \<open>list\<close>, is answered by the replacement's handler; the output is
    whatever that handler returns, which may name the replacement itself.
\<close>

theorem register_tool_over_builtin:
  "map_of (snd (register_tool reg tool)) (''tools/'' @ tool_name tool) = Some tool
   \<and> fst (register_tool reg tool) = [(INFO, log_register_tool @ tool_name tool)]
   \<and> tool_handler (the (map_of (register_core_tools reg) ''tools/list'')) = Builtin_tools_list
   \<and> tool_handler (the (map_of (register_core_tools reg) ''tools/call'')) = Builtin_tools_call
   \<and> ((tool_name tool = ''list'' \<or> tool_name tool = ''call'') \<and>
       ''tools/'' @ tool_name tool \<in> fst ` set reg \<longrightarrow>
         map fst (snd (register_tool reg tool)) = map fst reg)
   \<and> (\<exists>ts. handle_tools_list (snd (register_tool reg tool)) params
            = PDict [(''tools'', PList (map tool_entry ts))]
        \<and> (tool_name tool = ''list'' \<or> tool_name tool = ''call'' \<longrightarrow>
             handle_tools_list reg params = PDict [(''tools'', PList (map tool_entry ts))])
        \<and> ((tool_name tool = ''list'' \<or> tool_name tool = ''call'') \<and> listed k \<and>
            map_of reg k = Some t \<longrightarrow> t \<in> set ts)
        \<and> ((tool_name tool = ''list'' \<or> tool_name tool = ''call'') \<and>
            (\<forall>kt \<in> set reg. fst kt = ''tools/'' @ tool_name (snd kt)) \<longrightarrow>
              (\<forall>t \<in> set ts. tool_name t \<noteq> ''list'' \<and> tool_name t \<noteq> ''call'')))
   \<and> (tool_name tool = ''call'' \<and> body \<noteq> [] \<and> parse_body env body = Inr (PDict d) \<and>
       map_of d ''jsonrpc'' = Some (PStr ''2.0'') \<and>
       map_of d ''method'' = Some (PStr ''tools/list'') \<and>
       validate_optional_id env (dict_get d ''id'' PNone) = Inr rid \<and>
       map_of reg ''tools/list'' = Some list_tool \<and>
       tool_handler list_tool = Builtin_tools_list \<and>
       unserializable (handle_tools_list reg (dict_get d ''params'' (PDict []))) = None \<longrightarrow>
         handle_jsonrpc env (snd (register_tool reg tool)) body
           = ([], Inr (success_envelope rid
                         (handle_tools_list reg (dict_get d ''params'' (PDict []))))))
   \<and> (tool_name tool = ''list'' \<and> body \<noteq> [] \<and> parse_body env body = Inr (PDict d) \<and>
       map_of d ''jsonrpc'' = Some (PStr ''2.0'') \<and>
       map_of d ''method'' = Some (PStr ''tools/list'') \<and>
       validate_optional_id env (dict_get d ''id'' PNone) = Inr rid \<and>
       (tool_handler tool = Sync f \<or> tool_handler tool = Async f) \<and>
       f (dict_get d ''params'' (PDict [])) = Inr r \<and> unserializable r = None \<longrightarrow>
         handle_jsonrpc env (snd (register_tool reg tool)) body
           = ([], Inr (success_envelope rid r)))
   \<and> (tool_name tool = ''list'' \<and> body \<noteq> [] \<and> parse_body env body = Inr (PDict d) \<and>
       map_of d ''jsonrpc'' = Some (PStr ''2.0'') \<and>
       map_of d ''method'' = Some (PStr ''tools/call'') \<and>
       validate_optional_id env (dict_get d ''id'' PNone) = Inr rid \<and>
       map_of reg ''tools/call'' = Some call_tool \<and>
       tool_handler call_tool = Builtin_tools_call \<and>
       map_of d ''params'' = Some (PDict p) \<and> map_of p ''name'' = Some (PStr ''list'') \<and>
       tool_handler tool = Sync f \<and>
       f (dict_get p ''parameters'' (PDict [])) = Inr r \<and> unserializable r = None \<longrightarrow>
         handle_jsonrpc env (snd (register_tool reg tool)) body
           = ([], Inr (success_envelope rid (PDict [(''result'', r)]))))
   \<and> (tool_name tool = ''list'' \<and> tool_handler tool \<noteq> Builtin_tools_list \<and>
       distinct (map fst reg) \<and>
       (\<forall>kt \<in> set reg. tool_handler (snd kt) = Builtin_tools_list \<longrightarrow> fst kt = ''tools/list'') \<longrightarrow>
         (\<forall>kt \<in> set (snd (register_tool reg tool)).
            tool_handler (snd kt) \<noteq> Builtin_tools_list))"
proof -
  let ?reg = "snd (register_tool reg tool)"
  let ?ts = "map snd (filter (\<lambda>kt. listed (fst kt)) ?reg)"
  have stored: "map_of ?reg (''tools/'' @ tool_name tool) = Some tool"
    by (simp add: register_tool_def map_of_dict_set_same)
  have logged: "fst (register_tool reg tool) = [(INFO, log_register_tool @ tool_name tool)]"
    by (simp add: register_tool_def)
  have core: "tool_handler (the (map_of (register_core_tools reg) ''tools/list'')) = Builtin_tools_list"
    "tool_handler (the (map_of (register_core_tools reg) ''tools/call'')) = Builtin_tools_call"
    by (simp_all add: core_tools_lookup MCPTool_init_def)
  have keys: "map fst ?reg = map fst reg"
    if "(tool_name tool = ''list'' \<or> tool_name tool = ''call'') \<and>
        ''tools/'' @ tool_name tool \<in> fst ` set reg"
    using that by (simp add: register_tool_def keys_dict_set_present)
  have listing: "handle_tools_list ?reg params = PDict [(''tools'', PList (map tool_entry ?ts))]"
    by (simp add: handle_tools_list_def comp_def)
  have before: "handle_tools_list reg params = PDict [(''tools'', PList (map tool_entry ?ts))]"
    if "tool_name tool = ''list'' \<or> tool_name tool = ''call''"
    using that by (simp add: handle_tools_list_def comp_def listing_after_builtin_name)
  have kept: "t \<in> set ?ts"
    if "(tool_name tool = ''list'' \<or> tool_name tool = ''call'') \<and> listed k \<and>
        map_of reg k = Some t"
  proof -
    from that have "t \<in> set (map snd (filter (\<lambda>kt. listed (fst kt)) reg))"
      using listed_entry_kept [of k reg t] by blast
    moreover from that have "filter (\<lambda>kt. listed (fst kt)) ?reg = filter (\<lambda>kt. listed (fst kt)) reg"
      using listing_after_builtin_name [of tool reg] by blast
    ultimately show ?thesis
      by simp
  qed
  have names: "\<forall>t \<in> set ?ts. tool_name t \<noteq> ''list'' \<and> tool_name t \<noteq> ''call''"
    if "(tool_name tool = ''list'' \<or> tool_name tool = ''call'') \<and>
        (\<forall>kt \<in> set reg. fst kt = ''tools/'' @ tool_name (snd kt))"
  proof
    fix t'
    assume "t' \<in> set ?ts"
    moreover from that have
      "filter (\<lambda>kt. listed (fst kt)) ?reg = filter (\<lambda>kt. listed (fst kt)) reg"
      using listing_after_builtin_name [of tool reg] by blast
    ultimately have "t' \<in> set (map snd (filter (\<lambda>kt. listed (fst kt)) reg))"
      by simp
    with that show "tool_name t' \<noteq> ''list'' \<and> tool_name t' \<noteq> ''call''"
      using listed_names [of reg t'] by blast
  qed
  have first: "\<exists>ts. handle_tools_list ?reg params = PDict [(''tools'', PList (map tool_entry ts))]
      \<and> (tool_name tool = ''list'' \<or> tool_name tool = ''call'' \<longrightarrow>
           handle_tools_list reg params = PDict [(''tools'', PList (map tool_entry ts))])
      \<and> ((tool_name tool = ''list'' \<or> tool_name tool = ''call'') \<and> listed k \<and>
          map_of reg k = Some t \<longrightarrow> t \<in> set ts)
      \<and> ((tool_name tool = ''list'' \<or> tool_name tool = ''call'') \<and>
          (\<forall>kt \<in> set reg. fst kt = ''tools/'' @ tool_name (snd kt)) \<longrightarrow>
            (\<forall>t \<in> set ts. tool_name t \<noteq> ''list'' \<and> tool_name t \<noteq> ''call''))"
    using listing before kept names by (intro exI [of _ ?ts] conjI impI)
  have second: "handle_jsonrpc env ?reg body
      = ([], Inr (success_envelope rid (handle_tools_list reg (dict_get d ''params'' (PDict [])))))"
    if "tool_name tool = ''call'' \<and> body \<noteq> [] \<and> parse_body env body = Inr (PDict d) \<and>
       map_of d ''jsonrpc'' = Some (PStr ''2.0'') \<and>
       map_of d ''method'' = Some (PStr ''tools/list'') \<and>
       validate_optional_id env (dict_get d ''id'' PNone) = Inr rid \<and>
       map_of reg ''tools/list'' = Some list_tool \<and>
       tool_handler list_tool = Builtin_tools_list \<and>
       unserializable (handle_tools_list reg (dict_get d ''params'' (PDict []))) = None"
    using that by (intro list_request_after_call_replaced [where list_tool = list_tool]) blast+
  have third: "handle_jsonrpc env ?reg body = ([], Inr (success_envelope rid r))"
    if "tool_name tool = ''list'' \<and> body \<noteq> [] \<and> parse_body env body = Inr (PDict d) \<and>
       map_of d ''jsonrpc'' = Some (PStr ''2.0'') \<and>
       map_of d ''method'' = Some (PStr ''tools/list'') \<and>
       validate_optional_id env (dict_get d ''id'' PNone) = Inr rid \<and>
       (tool_handler tool = Sync f \<or> tool_handler tool = Async f) \<and>
       f (dict_get d ''params'' (PDict [])) = Inr r \<and> unserializable r = None"
    using that by (intro list_request_after_list_replaced [where d = d and f = f]) blast+
  have fourth: "handle_jsonrpc env ?reg body
      = ([], Inr (success_envelope rid (PDict [(''result'', r)])))"
    if "tool_name tool = ''list'' \<and> body \<noteq> [] \<and> parse_body env body = Inr (PDict d) \<and>
       map_of d ''jsonrpc'' = Some (PStr ''2.0'') \<and>
       map_of d ''method'' = Some (PStr ''tools/call'') \<and>
       validate_optional_id env (dict_get d ''id'' PNone) = Inr rid \<and>
       map_of reg ''tools/call'' = Some call_tool \<and>
       tool_handler call_tool = Builtin_tools_call \<and>
       map_of d ''params'' = Some (PDict p) \<and> map_of p ''name'' = Some (PStr ''list'') \<and>
       tool_handler tool = Sync f \<and>
       f (dict_get p ''parameters'' (PDict [])) = Inr r \<and> unserializable r = None"
    using that
    by (intro list_through_call_after_list_replaced
          [where d = d and f = f and p = p and call_tool = call_tool]) blast+
  have fifth: "\<forall>kt \<in> set ?reg. tool_handler (snd kt) \<noteq> Builtin_tools_list"
    if "tool_name tool = ''list'' \<and> tool_handler tool \<noteq> Builtin_tools_list \<and>
       distinct (map fst reg) \<and>
       (\<forall>kt \<in> set reg. tool_handler (snd kt) = Builtin_tools_list \<longrightarrow> fst kt = ''tools/list'')"
    using that by (intro builtin_listing_unreachable) blast+
  from stored logged core keys first second third fourth fifth show ?thesis
    by (intro conjI impI)
qed

theorem register_tool_over_builtin_witness:
  "tool_name (make_tool ''call'' returns_none) = ''call''
   \<and> map_of (example_registry ''tap'' returns_none) ''tools/list''
       = Some (MCPTool_init ''list'' desc_tools_list Builtin_tools_list None None)
   \<and> ''tools/call'' \<in> fst ` set (example_registry ''tap'' returns_none)
   \<and> listed ''tools/tap''
   \<and> map_of (example_registry ''tap'' returns_none) ''tools/tap''
       = Some (make_tool ''tap'' returns_none)
   \<and> map fst (snd (register_tool (example_registry ''tap'' returns_none)
                     (make_tool ''call'' returns_none)))
       = [''tools/list'', ''tools/call'', ''tools/tap'']
   \<and> handle_jsonrpc (direct_env ''list'')
        (snd (register_tool (example_registry ''tap'' returns_none)
                (make_tool ''call'' returns_none)))
        (direct_text ''list'')
       = ([], Inr (success_envelope (PInt 1)
                     (PDict [(''tools'', PList [tool_entry (make_tool ''tap'' returns_none)])])))
   \<and> tool_name (make_tool ''list'' lists_itself) = ''list''
   \<and> handle_jsonrpc (direct_env ''list'')
        (snd (register_tool (example_registry ''tap'' returns_none)
                (make_tool ''list'' lists_itself)))
        (direct_text ''list'')
       = ([], Inr (success_envelope (PInt 1)
                     (PDict [(''tools'', PList [PDict [(''name'', PStr ''list'')]])])))
   \<and> handle_jsonrpc (via_call_env ''list'')
        (snd (register_tool (example_registry ''tap'' returns_none)
                (make_tool ''list'' lists_itself)))
        (via_call_text ''list'')
       = ([], Inr (success_envelope (PInt 1)
           (PDict [(''result'', PDict [(''tools'', PList [PDict [(''name'', PStr ''list'')]])])])))
   \<and> distinct (map fst (example_registry ''tap'' returns_none))
   \<and> list_all (\<lambda>kt. tool_handler (snd kt) \<noteq> Builtin_tools_list)
        (snd (register_tool (example_registry ''tap'' returns_none)
                (make_tool ''list'' lists_itself)))"
proof -
  let ?reg = "example_registry ''tap'' returns_none"
  let ?d = "[(''jsonrpc'', PStr ''2.0''), (''id'', PInt 1), (''method'', PStr ''tools/list'')]"
  let ?list = "MCPTool_init ''list'' desc_tools_list Builtin_tools_list None None"
  have reg: "?reg = [(''tools/list'', ?list),
      (''tools/call'',
       MCPTool_init ''call'' desc_tools_call Builtin_tools_call (Some tools_call_schema) None),
      (''tools/tap'', make_tool ''tap'' returns_none)]"
    by (simp add: example_registry_def register_tool_def register_core_tools_def make_tool_def
          MCPTool_init_def)
  have facts: "tool_name (make_tool ''call'' returns_none) = ''call''"
    "map_of ?reg ''tools/list'' = Some ?list"
    "''tools/call'' \<in> fst ` set ?reg"
    "listed ''tools/tap''"
    "map_of ?reg ''tools/tap'' = Some (make_tool ''tap'' returns_none)"
    "tool_name (make_tool ''list'' lists_itself) = ''list''"
    "tool_handler ?list = Builtin_tools_list"
    unfolding reg by (simp_all add: make_tool_def MCPTool_init_def listed_def startswith_def)
  have request: "direct_text ''list'' \<noteq> []"
    "parse_body (direct_env ''list'') (direct_text ''list'') = Inr (PDict ?d)"
    "map_of ?d ''jsonrpc'' = Some (PStr ''2.0'')"
    "map_of ?d ''method'' = Some (PStr ''tools/list'')"
    "validate_optional_id (direct_env ''list'') (dict_get ?d ''id'' PNone) = Inr (PInt 1)"
    "dict_get ?d ''params'' (PDict []) = PDict []"
    by (simp_all add: example_facts)
  have listing: "handle_tools_list ?reg (PDict [])
      = PDict [(''tools'', PList [tool_entry (make_tool ''tap'' returns_none)])]"
    unfolding reg by (simp add: handle_tools_list_def listed_def startswith_def)
  then have plain: "unserializable (handle_tools_list ?reg (dict_get ?d ''params'' (PDict []))) = None"
    by (simp add: request(6) tool_entry_def make_tool_def MCPTool_init_def
          falsy_to_empty_dict_def)
  note first = register_tool_over_builtin
    [where reg = ?reg and tool = "make_tool ''call'' returns_none" and params = "PDict []"
       and k = "''tools/tap''" and t = "make_tool ''tap'' returns_none"
       and body = "direct_text ''list''" and env = "direct_env ''list''" and d = ?d
       and rid = "PInt 1" and list_tool = ?list
       and f = "\<lambda>params. Inr PNone" and r = PNone and p = "[]" and call_tool = ?list]
  from first facts(1,3)
  have "map fst (snd (register_tool ?reg (make_tool ''call'' returns_none))) = map fst ?reg"
    by simp
  then have keys: "map fst (snd (register_tool ?reg (make_tool ''call'' returns_none)))
      = [''tools/list'', ''tools/call'', ''tools/tap'']"
    by (simp add: reg)
  from first facts(1,2,7) request(1-5) plain
  have "handle_jsonrpc (direct_env ''list'')
      (snd (register_tool ?reg (make_tool ''call'' returns_none))) (direct_text ''list'')
      = ([], Inr (success_envelope (PInt 1)
                    (handle_tools_list ?reg (dict_get ?d ''params'' (PDict [])))))"
    by blast
  then have listed_still: "handle_jsonrpc (direct_env ''list'')
      (snd (register_tool ?reg (make_tool ''call'' returns_none))) (direct_text ''list'')
      = ([], Inr (success_envelope (PInt 1)
                    (PDict [(''tools'', PList [tool_entry (make_tool ''tap'' returns_none)])])))"
    by (simp only: request(6) listing)
  note second = register_tool_over_builtin
    [where reg = ?reg and tool = "make_tool ''list'' lists_itself" and params = "PDict []"
       and k = "''tools/tap''" and t = "make_tool ''tap'' returns_none"
       and body = "direct_text ''list''" and env = "direct_env ''list''" and d = ?d
       and rid = "PInt 1" and list_tool = ?list
       and f = "\<lambda>params. Inr (PDict [(''tools'', PList [PDict [(''name'', PStr ''list'')]])])"
       and r = "PDict [(''tools'', PList [PDict [(''name'', PStr ''list'')]])]"
       and p = "[]" and call_tool = ?list]
  have handler: "tool_handler (make_tool ''list'' lists_itself)
      = Sync (\<lambda>params. Inr (PDict [(''tools'', PList [PDict [(''name'', PStr ''list'')]])]))"
    by (simp add: make_tool_def MCPTool_init_def lists_itself_def)
  have plain': "unserializable (PDict [(''tools'', PList [PDict [(''name'', PStr ''list'')]])]) = None"
    by simp
  from handler plain' have replaced: "handle_jsonrpc (direct_env ''list'')
      (snd (register_tool ?reg (make_tool ''list'' lists_itself))) (direct_text ''list'')
      = ([], Inr (success_envelope (PInt 1)
                    (PDict [(''tools'', PList [PDict [(''name'', PStr ''list'')]])])))"
    using second facts(6) request(1-5) by blast
  let ?p = "[(''name'', PStr ''list''), (''parameters'', PDict [])]"
  let ?d' = "[(''jsonrpc'', PStr ''2.0''), (''id'', PInt 1), (''method'', PStr ''tools/call''),
    (''params'', PDict ?p)]"
  let ?call = "MCPTool_init ''call'' desc_tools_call Builtin_tools_call (Some tools_call_schema)
    None"
  have through: "via_call_text ''list'' \<noteq> []"
    "parse_body (via_call_env ''list'') (via_call_text ''list'') = Inr (PDict ?d')"
    "map_of ?d' ''jsonrpc'' = Some (PStr ''2.0'')"
    "map_of ?d' ''method'' = Some (PStr ''tools/call'')"
    "validate_optional_id (via_call_env ''list'') (dict_get ?d' ''id'' PNone) = Inr (PInt 1)"
    "map_of ?d' ''params'' = Some (PDict ?p)" "map_of ?p ''name'' = Some (PStr ''list'')"
    "dict_get ?p ''parameters'' (PDict []) = PDict []"
    "map_of ?reg ''tools/call'' = Some ?call" "tool_handler ?call = Builtin_tools_call"
    unfolding reg by (simp_all add: example_facts)
  note third = register_tool_over_builtin
    [where reg = ?reg and tool = "make_tool ''list'' lists_itself" and params = "PDict []"
       and k = "''tools/tap''" and t = "make_tool ''tap'' returns_none"
       and body = "via_call_text ''list''" and env = "via_call_env ''list''" and d = ?d'
       and rid = "PInt 1" and list_tool = ?list
       and f = "\<lambda>params. Inr (PDict [(''tools'', PList [PDict [(''name'', PStr ''list'')]])])"
       and r = "PDict [(''tools'', PList [PDict [(''name'', PStr ''list'')]])]"
       and p = ?p and call_tool = ?call]
  have called: "handle_jsonrpc (via_call_env ''list'')
      (snd (register_tool ?reg (make_tool ''list'' lists_itself))) (via_call_text ''list'')
      = ([], Inr (success_envelope (PInt 1)
           (PDict [(''result'', PDict [(''tools'', PList [PDict [(''name'', PStr ''list'')]])])])))"
    using third facts(6) through handler plain'
    by simp
  have only: "distinct (map fst ?reg)"
    "\<forall>kt \<in> set ?reg. tool_handler (snd kt) = Builtin_tools_list \<longrightarrow> fst kt = ''tools/list''"
    unfolding reg by (simp_all add: MCPTool_init_def make_tool_def returns_none_def)
  have "tool_handler (make_tool ''list'' lists_itself) \<noteq> Builtin_tools_list"
    by (simp add: handler)
  with third [THEN conjunct2, THEN conjunct2, THEN conjunct2, THEN conjunct2, THEN conjunct2,
      THEN conjunct2, THEN conjunct2, THEN conjunct2, THEN conjunct2] facts(6) only
  have "\<forall>kt \<in> set (snd (register_tool ?reg (make_tool ''list'' lists_itself))).
      tool_handler (snd kt) \<noteq> Builtin_tools_list"
    by blast
  then have gone: "list_all (\<lambda>kt. tool_handler (snd kt) \<noteq> Builtin_tools_list)
      (snd (register_tool ?reg (make_tool ''list'' lists_itself)))"
    by (simp add: list_all_iff)
  from facts(1-6) keys listed_still replaced called only(1) gone show ?thesis
    by (intro conjI)
qed

theorem list_replacement_counterexample:
  "snd (handle_jsonrpc (direct_env ''list'') (example_registry ''list'' lists_itself)
          (direct_text ''list'')) =
     Inr \<lparr>content = PDict [(''jsonrpc'', PStr ''2.0''), (''id'', PInt 1),
             (''result'', PDict [(''tools'', PList [PDict [(''name'', PStr ''list'')]])])],
          media_type = ''application/json''\<rparr>"
proof -
  have "handle_jsonrpc (direct_env ''list'') (example_registry ''list'' lists_itself)
          (direct_text ''list'') =
     ([], Inr (success_envelope (PInt 1)
                 (PDict [(''tools'', PList [PDict [(''name'', PStr ''list'')]])])))"
    by (rule direct_result [where d = "[(''jsonrpc'', PStr ''2.0''), (''id'', PInt 1),
            (''method'', PStr ''tools/list'')]"
          and tool = "make_tool ''list'' lists_itself" and m = "''tools/list''"
          and f = "\<lambda>params. Inr (PDict [(''tools'', PList [PDict [(''name'', PStr ''list'')]])])"])
       (simp_all add: example_facts lists_itself_def)
  then show ?thesis
    by (simp add: success_envelope_def exclude_none_def)
qed
section \<open>Facts about the sync signals\<close>






















lemma wait_when_not_signalled:
  assumes "\<not> signalled s l" and "sync_locks s l \<noteq> None" and "l \<noteq> []"
  shows "sync_operations s ''wait'' (Some l) t = (reply False (msg_wait_open @ l @ msg_wait_timeout), s)"
  using assms
  by (auto simp: sync_operations_def signalled_def get_or_create_event_def split: option.splits)


section \<open>Facts about threads in the sync calls\<close>

























































section \<open>C8: the blackboard\<close>

lemma share_eq:
  "share s k v =
     (if k = [] then (Inr (reply False msg_no_data_key), s)
      else if v = PNone then (Inr (reply False msg_no_data_value), s)
      else (Inr (reply True (msg_data_shared @ k)), s\<lparr>shared_data := (shared_data s)(k \<mapsto> v)\<rparr>))"
  by (simp add: share_def share_between_devices_def falsy_str_def)

lemma get_data_eq:
  "get_data s k =
     (if k = [] then (Inr (reply False msg_no_data_key), s)
      else
        (case shared_data s k of
           None \<Rightarrow> (Inr (reply False (msg_key_missing @ k)), s)
         | Some v \<Rightarrow> (Inr (PDict [(''success'', PBool True), (''data'', v)]), s)))"
  by (simp add: get_data_def share_between_devices_def falsy_str_def split: option.splits)

lemma share_all_other:
  "k \<notin> fst ` set kvs \<Longrightarrow> shared_data (share_all s kvs) k = shared_data s k"
  by (induction kvs arbitrary: s) (auto simp: share_eq)

text \<open>
  C8, as amended. For every key \<open>k\<close> that is not empty and every value \<open>v\<close> other than
  \<open>None\<close>, \<open>share(k, v)\<close> succeeds and stores \<open>v\<close> under \<open>k\<close>, leaving the other keys as
  they are, so that a following \<open>get(k)\<close> succeeds with exactly \<open>v\<close> and a later share of
  the same key replaces the value. \<open>share\<close> with the value \<open>None\<close> or with an empty key
  fails and leaves the blackboard as it is. \<open>get(k)\<close> changes nothing; for a key that is
  not empty it fails with the not-found message exactly when nothing is stored under
  \<open>k\<close>, as for every key not among those shared since the coordinator was created; for
  the empty key it fails with the message that no key was given.
\<close>

theorem share_then_get:
  "(k \<noteq> [] \<and> v \<noteq> PNone \<longrightarrow>
      share s k v =
        (Inr (reply True (msg_data_shared @ k)), s\<lparr>shared_data := (shared_data s)(k \<mapsto> v)\<rparr>)
    \<and> get_data (snd (share s k v)) k =
        (Inr (PDict [(''success'', PBool True), (''data'', v)]), snd (share s k v)))
   \<and> (k \<noteq> [] \<and> v \<noteq> PNone \<and> v' \<noteq> PNone \<longrightarrow>
        fst (get_data (snd (share (snd (share s k v)) k v')) k)
          = Inr (PDict [(''success'', PBool True), (''data'', v')]))
   \<and> (k \<noteq> [] \<longrightarrow> share s k PNone = (Inr (reply False msg_no_data_value), s))
   \<and> share s [] v = (Inr (reply False msg_no_data_key), s)
   \<and> (k \<noteq> [] \<and> shared_data s k = None \<longrightarrow>
        get_data s k = (Inr (reply False (msg_key_missing @ k)), s))
   \<and> (k \<noteq> [] \<and> shared_data s k = Some u \<longrightarrow>
        get_data s k = (Inr (PDict [(''success'', PBool True), (''data'', u)]), s))
   \<and> get_data s [] = (Inr (reply False msg_no_data_key), s)
   \<and> (k \<noteq> [] \<and> k \<notin> fst ` set kvs \<longrightarrow>
        fst (get_data (share_all coordinator_init kvs) k)
          = Inr (reply False (msg_key_missing @ k)))"
  by (simp add: share_eq get_data_eq share_all_other coordinator_init_def)

theorem share_then_get_witness:
  "''k'' \<noteq> [] \<and> PStr ''v'' \<noteq> PNone \<and> PInt 2 \<noteq> PNone
   \<and> fst (get_data (snd (share coordinator_init ''k'' (PStr ''v''))) ''k'')
       = Inr (PDict [(''success'', PBool True), (''data'', PStr ''v'')])
   \<and> fst (get_data (snd (share (snd (share coordinator_init ''k'' (PStr ''v''))) ''k'' (PInt 2)))
          ''k'')
       = Inr (PDict [(''success'', PBool True), (''data'', PInt 2)])
   \<and> shared_data (snd (share coordinator_init ''k'' PNone)) ''k'' = None
   \<and> shared_data (snd (share coordinator_init [] (PStr ''v''))) [] = None
   \<and> shared_data coordinator_init ''k'' = None
   \<and> fst (get_data coordinator_init ''k'') = Inr (reply False (msg_key_missing @ ''k''))
   \<and> shared_data (share_all coordinator_init [(''k'', PStr ''v'')]) ''k'' = Some (PStr ''v'')
   \<and> fst (get_data (share_all coordinator_init [(''k'', PStr ''v'')]) ''k'')
       = Inr (PDict [(''success'', PBool True), (''data'', PStr ''v'')])
   \<and> ''missing'' \<notin> fst ` set [(''k'', PStr ''v'')]
   \<and> fst (get_data (share_all coordinator_init [(''k'', PStr ''v'')]) ''missing'')
       = Inr (reply False (msg_key_missing @ ''missing''))"
  using share_then_get [of "''k''" "PStr ''v''" coordinator_init "PInt 2" PNone "[]"]
    share_then_get [of "''k''" "PStr ''v''" "share_all coordinator_init [(''k'', PStr ''v'')]"
      "PInt 2" "PStr ''v''" "[]"]
    share_then_get [of "''missing''" "PStr ''v''" coordinator_init "PInt 2" PNone
      "[(''k'', PStr ''v'')]"]
  by (simp add: share_eq get_data_eq coordinator_init_def)

theorem share_none_counterexample:
  "fst (share coordinator_init ''k'' PNone) = Inr (reply False msg_no_data_value)
   \<and> fst (get_data (snd (share coordinator_init ''k'' PNone)) ''k'')
       = Inr (reply False (msg_key_missing @ ''k''))"
  by (simp add: share_def get_data_def share_between_devices_def falsy_str_def
        coordinator_init_def)

section \<open>C9: cleanup\<close>

lemma controller_step_invoked:
  "invoked (controller_step c w) = (if has_hook c then [c] else [])"
  by (simp add: controller_step_def controller_try_def has_hook_def Let_def
        split: cleanup_attr.splits prod.splits option.splits)

lemma controller_step_raised:
  "raised (controller_step c w) = Some e \<Longrightarrow> base_only e"
  by (auto simp: controller_step_def controller_try_def Let_def
        split: cleanup_attr.splits prod.splits option.splits if_splits)

lemma controller_step_tame: "tame c \<Longrightarrow> raised (controller_step c w) = None"
proof (cases "cleanup_attr c")
  case (Hook h)
  assume "tame c"
  with Hook have "case fst (h w) of None \<Rightarrow> True | Some e \<Rightarrow> \<not> base_only e"
    by (simp add: tame_def)
  with Hook show ?thesis
    by (cases "h w")
       (auto simp: controller_step_def controller_try_def Let_def split: option.splits)
qed (simp_all add: controller_step_def controller_try_def)

lemma controller_step_base:
  assumes "cleanup_attr c = Hook h" and "fst (h w) = Some e" and "base_only e"
  shows "raised (controller_step c w) = Some e \<and> invoked (controller_step c w) = [c]
       \<and> world (controller_step c w) = snd (h w)"
  using assms
  by (cases "h w") (simp add: controller_step_def controller_try_def Let_def)

lemma controllers_loop_raised:
  "raised (controllers_loop cs w) = Some e \<Longrightarrow> base_only e"
proof (induction cs arbitrary: w)
  case Nil
  then show ?case by simp
next
  case (Cons c cs)
  show ?case
  proof (cases "raised (controller_step c w)")
    case None
    with Cons.prems have "raised (controllers_loop cs (world (controller_step c w))) = Some e"
      by (simp add: Let_def)
    then show ?thesis by (rule Cons.IH)
  next
    case (Some e')
    with Cons.prems have "e' = e"
      by (simp add: Let_def)
    with Some show ?thesis
      by (simp add: controller_step_raised)
  qed
qed

lemma controllers_loop_tame:
  "\<forall>c \<in> set cs. tame c \<Longrightarrow>
   raised (controllers_loop cs w) = None \<and> invoked (controllers_loop cs w) = filter has_hook cs"
  by (induction cs arbitrary: w)
     (simp_all add: controller_step_tame controller_step_invoked Let_def)

lemma controllers_loop_stops:
  assumes "\<forall>c' \<in> set before. tame c'" and "cleanup_attr c = Hook h"
    and "fst (h (world (controllers_loop before w))) = Some e" and "base_only e"
  shows "raised (controllers_loop (before @ c # after) w) = Some e
       \<and> invoked (controllers_loop (before @ c # after) w) = filter has_hook before @ [c]"
  using assms
proof (induction before arbitrary: w)
  case Nil
  then show ?case
    using controller_step_base [of c h w e] by (simp add: Let_def)
next
  case (Cons b before)
  from Cons.prems(1) have b: "raised (controller_step b w) = None"
    by (simp add: controller_step_tame)
  with Cons.prems have "fst (h (world (controllers_loop before (world (controller_step b w))))) = Some e"
    by (simp add: Let_def)
  with Cons.IH [of "world (controller_step b w)"] Cons.prems b show ?case
    by (simp add: Let_def controller_step_invoked)
qed

lemma cleanup_loop:
  "raised (cleanup res w) = raised (controllers_loop (controllers res) w)
   \<and> invoked (cleanup res w) = invoked (controllers_loop (controllers res) w)
   \<and> world (cleanup res w) = world (controllers_loop (controllers res) w)"
  by (simp add: cleanup_def Let_def split: option.splits)

lemma repeated_cleanup_tame:
  "\<forall>c \<in> set (controllers res). tame c \<Longrightarrow>
   map raised (repeated_cleanup res n w) = replicate n None
   \<and> map invoked (repeated_cleanup res n w) = replicate n (filter has_hook (controllers res))"
  by (induction n arbitrary: w) (simp_all add: cleanup_loop controllers_loop_tame Let_def)

text \<open>
  C9, as amended. \<open>cleanup\<close> never raises an exception derived from \<open>Exception\<close>. When the
  hook of every tracked controller returns or raises such an exception, \<open>cleanup\<close> and
  the signal handler return normally, and invoked any number of times in a row every
  invocation calls the hook of every tracked controller that has a callable \<open>cleanup\<close>,
  in the order of registration, whether or not an earlier hook raised. A hook that
  raises an exception deriving from \<open>BaseException\<close> only (SystemExit,
  KeyboardInterrupt) passes the \<open>except Exception\<close> of line 132: the exception leaves
  \<open>cleanup\<close> and the hooks of the controllers after it are not called.
\<close>

theorem cleanup_exceptions:
  "(raised (cleanup res w) = Some e \<longrightarrow> base_only e)
   \<and> ((\<forall>c \<in> set (controllers res). tame c) \<longrightarrow>
        raised (cleanup res w) = None
      \<and> invoked (cleanup res w) = filter has_hook (controllers res)
      \<and> raised (handle_signal env res signum w) = None
      \<and> invoked (handle_signal env res signum w) = filter has_hook (controllers res)
      \<and> map raised (repeated_cleanup res n w) = replicate n None
      \<and> map invoked (repeated_cleanup res n w) = replicate n (filter has_hook (controllers res)))
   \<and> (controllers res = before @ c # after \<and> (\<forall>c' \<in> set before. tame c') \<and>
       cleanup_attr c = Hook h \<and> fst (h (world (controllers_loop before w))) = Some e' \<and>
       base_only e' \<longrightarrow>
        raised (cleanup res w) = Some e'
      \<and> invoked (cleanup res w) = filter has_hook before @ [c]
      \<and> raised (handle_signal env res signum w) = Some e')"
proof (intro conjI impI)
  assume "raised (cleanup res w) = Some e"
  then show "base_only e"
    by (simp add: cleanup_loop controllers_loop_raised)
next
  assume t: "\<forall>c \<in> set (controllers res). tame c"
  then show "raised (cleanup res w) = None"
    and "invoked (cleanup res w) = filter has_hook (controllers res)"
    and "raised (handle_signal env res signum w) = None"
    and "invoked (handle_signal env res signum w) = filter has_hook (controllers res)"
    by (simp_all add: cleanup_loop controllers_loop_tame handle_signal_def Let_def)
  from t show "map raised (repeated_cleanup res n w) = replicate n None"
    and "map invoked (repeated_cleanup res n w) = replicate n (filter has_hook (controllers res))"
    by (simp_all add: repeated_cleanup_tame)
next
  assume a: "controllers res = before @ c # after \<and> (\<forall>c' \<in> set before. tame c') \<and>
      cleanup_attr c = Hook h \<and> fst (h (world (controllers_loop before w))) = Some e' \<and>
      base_only e'"
  then have "raised (controllers_loop (before @ c # after) w) = Some e'
      \<and> invoked (controllers_loop (before @ c # after) w) = filter has_hook before @ [c]"
    using controllers_loop_stops [of before c h w e' after] by blast
  with a show "raised (cleanup res w) = Some e'"
    and "invoked (cleanup res w) = filter has_hook before @ [c]"
    and "raised (handle_signal env res signum w) = Some e'"
    by (simp_all add: cleanup_loop handle_signal_def Let_def)
qed

lemma tame_examples: "tame controller_A" "tame controller_B" "tame controller_C"
  by (simp_all add: tame_def controller_A_def controller_B_def controller_C_def)

theorem cleanup_exceptions_witness:
  "tame controller_A \<and> tame controller_B \<and> tame controller_C
   \<and> map raised (repeated_cleanup
        \<lparr>running_threads = [\<lparr>thread_name = ''worker'', is_alive = True\<rparr>],
         controllers = [controller_A, controller_B, controller_C]\<rparr> 2 0)
       = [None, None]
   \<and> map invoked (repeated_cleanup
        \<lparr>running_threads = [\<lparr>thread_name = ''worker'', is_alive = True\<rparr>],
         controllers = [controller_A, controller_B, controller_C]\<rparr> 2 0)
       = [[controller_A, controller_C], [controller_A, controller_C]]
   \<and> map world (repeated_cleanup
        \<lparr>running_threads = [\<lparr>thread_name = ''worker'', is_alive = True\<rparr>],
         controllers = [controller_A, controller_B, controller_C]\<rparr> 2 0)
       = [1, 2]
   \<and> cleanup_attr controller_X = Hook (\<lambda>w. (Some (PyBaseException ''SystemExit'' ''1''), w))
   \<and> base_only (PyBaseException ''SystemExit'' ''1'')
   \<and> raised (cleanup \<lparr>running_threads = [],
                      controllers = [controller_A, controller_X, controller_C]\<rparr> 0)
       = Some (PyBaseException ''SystemExit'' ''1'')
   \<and> invoked (cleanup \<lparr>running_threads = [],
                       controllers = [controller_A, controller_X, controller_C]\<rparr> 0)
       = [controller_A, controller_X]"
proof -
  let ?res = "\<lparr>running_threads = [\<lparr>thread_name = ''worker'', is_alive = True\<rparr>],
         controllers = [controller_A, controller_B, controller_C]\<rparr>"
  let ?res' = "\<lparr>running_threads = [],
         controllers = [controller_A, controller_X, controller_C]\<rparr>"
  let ?exit = "PyBaseException ''SystemExit'' ''1''"
  have worlds: "map world (repeated_cleanup ?res 2 0) = [1, 2]"
    by (simp add: numeral_2_eq_2 cleanup_def controller_step_def controller_try_def Let_def
          controller_A_def controller_B_def controller_C_def)
  have hooks: "has_hook controller_A" "\<not> has_hook controller_B" "has_hook controller_C"
    by (simp_all add: has_hook_def controller_A_def controller_B_def controller_C_def)
  have first: "map raised (repeated_cleanup ?res 2 0) = [None, None]
      \<and> map invoked (repeated_cleanup ?res 2 0)
          = [[controller_A, controller_C], [controller_A, controller_C]]"
    using cleanup_exceptions [of ?res 0 "PyException ''OSError'' ''gone''"
        "example_env [] PNone" 15 2 "[]" controller_A "[controller_B, controller_C]"
        "\<lambda>w. (Some (PyException ''OSError'' ''gone''), w)" "PyException ''OSError'' ''gone''"]
      hooks
    by (simp add: tame_examples numeral_2_eq_2)
  have hook: "cleanup_attr controller_X = Hook (\<lambda>w. (Some ?exit, w))"
    by (simp add: controller_X_def)
  have second: "raised (cleanup ?res' 0) = Some ?exit
      \<and> invoked (cleanup ?res' 0) = [controller_A, controller_X]"
    using cleanup_exceptions [of ?res' 0 ?exit "example_env [] PNone" 15 2 "[controller_A]"
        controller_X "[controller_C]" "\<lambda>w. (Some ?exit, w)" ?exit]
      hook hooks(1)
    by (simp add: tame_examples)
  from worlds first hook second show ?thesis
    by (simp add: tame_examples)
qed

theorem cleanup_system_exit_counterexample:
  "raised (cleanup \<lparr>running_threads = [],
                    controllers = [controller_A, controller_X, controller_C]\<rparr> 0)
     = Some (PyBaseException ''SystemExit'' ''1'')
   \<and> invoked (cleanup \<lparr>running_threads = [],
                       controllers = [controller_A, controller_X, controller_C]\<rparr> 0)
     = [controller_A, controller_X]
   \<and> world (cleanup \<lparr>running_threads = [],
                     controllers = [controller_A, controller_X, controller_C]\<rparr> 0) = 0"
  by (simp add: cleanup_def controller_step_def controller_try_def Let_def
        controller_A_def controller_X_def controller_C_def)

section \<open>Facts about schema inference\<close>

lemma after_colon_total: "CHR '':'' \<in> set s \<Longrightarrow> \<exists>t. after_colon s = Inr t"
  by (induction s) auto

lemma startswith_has_colon:
  assumes "startswith s (p @ '':'')"
  shows "CHR '':'' \<in> set s"
proof -
  from assms have "take (length (p @ '':'')) s = p @ '':''"
    by (simp add: startswith_def)
  then have "CHR '':'' \<in> set (take (length (p @ '':'')) s)"
    by simp
  then show ?thesis
    by (rule in_set_takeD)
qed

lemma matching_line_ok:
  "\<exists>r. matching_line lines pname = Inr r \<and>
       (r \<noteq> None \<longleftrightarrow> list_ex (\<lambda>line. startswith (strip line) (pname @ '':'')) lines)"
proof (induction lines)
  case Nil
  then show ?case by simp
next
  case (Cons line lines)
  show ?case
  proof (cases "startswith (strip line) (pname @ '':'')")
    case True
    then obtain t where "after_colon (strip line) = Inr t"
      using after_colon_total startswith_has_colon by blast
    with True show ?thesis by simp
  next
    case False
    with Cons.IH show ?thesis by simp
  qed
qed

lemma find_description_ok:
  "\<exists>r. find_description (doc m) pname = Inr r \<and> (r \<noteq> None \<longleftrightarrow> documented m pname)"
proof (cases "doc m")
  case None
  then show ?thesis by (simp add: find_description_def documented_def)
next
  case (Some docstring)
  show ?thesis
  proof (cases "docstring = []")
    case True
    with Some show ?thesis by (simp add: find_description_def documented_def)
  next
    case False
    with Some matching_line_ok [of "split_newline (strip docstring)" pname] show ?thesis
      by (simp add: find_description_def documented_def)
  qed
qed

lemma param_property_ok:
  "\<exists>prop. param_property m p = Inr (PDict prop)
     \<and> map_of prop ''type'' = Some (PStr (fst (param_type (param_annotation p))))
     \<and> map_of prop ''items'' =
         (case snd (param_type (param_annotation p)) of
            None \<Rightarrow> None
          | Some t \<Rightarrow> Some (PDict [(''type'', PStr t)]))
     \<and> (map_of prop ''description'' \<noteq> None \<longleftrightarrow> documented m (param_name p))"
proof -
  obtain r where r: "find_description (doc m) (param_name p) = Inr r"
    and d: "r \<noteq> None \<longleftrightarrow> documented m (param_name p)"
    using find_description_ok by blast
  have arr: "snd (param_type a) \<noteq> None \<longleftrightarrow> fst (param_type a) = ''array''" for a
    by (simp add: param_type_def)
  show ?thesis
    using r d arr [of "param_annotation p"]
    by (cases r; cases "snd (param_type (param_annotation p))")
       (auto simp: param_property_def)
qed

lemma param_property_total: "\<exists>prop. param_property m p = Inr prop"
  using param_property_ok [of m p] by blast

lemma schema_loop_ok:
  "schema_loop m ps props req =
     Inr (foldl (\<lambda>d q. dict_set d (param_name q) (projr (param_property m q))) props
            (filter (\<lambda>q. \<not> skipped q) ps),
          req @ map param_name (filter (\<lambda>q. \<not> skipped q \<and> \<not> has_default q) ps))"
proof (induction ps arbitrary: props req)
  case Nil
  then show ?case by simp
next
  case (Cons p ps)
  obtain pr where "param_property m p = Inr pr"
    using param_property_total by blast
  with Cons.IH show ?case by simp
qed

lemma foldl_dict_set_other:
  "k \<notin> param_name ` set qs \<Longrightarrow>
   map_of (foldl (\<lambda>d q. dict_set d (param_name q) (g q)) d qs) k = map_of d k"
  by (induction qs arbitrary: d) (simp_all add: map_of_dict_set_other)

lemma foldl_dict_set_lookup:
  "distinct (map param_name qs) \<Longrightarrow> p \<in> set qs \<Longrightarrow>
   map_of (foldl (\<lambda>d q. dict_set d (param_name q) (g q)) d qs) (param_name p) = Some (g p)"
proof (induction qs arbitrary: d)
  case Nil
  then show ?case by simp
next
  case (Cons q qs)
  show ?case
  proof (cases "p = q")
    case True
    from Cons.prems(1) have "param_name q \<notin> param_name ` set qs"
      by simp
    with True show ?thesis
      by (simp add: foldl_dict_set_other map_of_dict_set_same)
  next
    case False
    with Cons show ?thesis by simp
  qed
qed

lemma schema_eval:
  "build_input_schema tap_method =
     Inr (PDict [(''type'', PStr ''object''),
        (''properties'',
           PDict [(''x'', PDict [(''type'', PStr ''integer''),
                                 (''description'', PStr ''the abscissa'')]),
                  (''tags'', PDict [(''type'', PStr ''array''),
                                    (''items'', PDict [(''type'', PStr ''string'')])])]),
        (''required'', PList [PStr ''x''])])"
  by (simp add: tap_method_def build_input_schema_def skipped_def param_property_def
        param_type_def find_description_def strip_def lstrip_def rstrip_def whitespace_def
        startswith_def)

lemma foldl_dict_set_keys:
  "distinct (map param_name qs) \<Longrightarrow> param_name ` set qs \<inter> fst ` set d = {} \<Longrightarrow>
   map fst (foldl (\<lambda>d q. dict_set d (param_name q) (g q)) d qs) = map fst d @ map param_name qs"
proof (induction qs arbitrary: d)
  case Nil
  then show ?case by simp
next
  case (Cons q qs)
  from Cons.prems(2) have absent: "param_name q \<notin> fst ` set d"
    by auto
  then have keys: "map fst (dict_set d (param_name q) (g q)) = map fst d @ [param_name q]"
    by (rule keys_dict_set_absent)
  then have "fst ` set (dict_set d (param_name q) (g q)) = fst ` set d \<union> {param_name q}"
    by (metis (no_types) set_map set_append list.simps(15) empty_set)
  with Cons.prems have "param_name ` set qs \<inter> fst ` set (dict_set d (param_name q) (g q)) = {}"
    by auto
  moreover from Cons.prems(1) have "distinct (map param_name qs)"
    by simp
  ultimately have "map fst (foldl (\<lambda>d q. dict_set d (param_name q) (g q))
      (dict_set d (param_name q) (g q)) qs)
      = map fst (dict_set d (param_name q) (g q)) @ map param_name qs"
    by (rule Cons.IH [rotated])
  with keys show ?case
    by simp
qed

lemma foldl_dict_set_key_set:
  "fst ` set (foldl (\<lambda>d q. dict_set d (param_name q) (g q)) d qs)
     = fst ` set d \<union> param_name ` set qs"
proof (induction qs arbitrary: d)
  case Nil
  then show ?case by simp
next
  case (Cons q qs)
  have "fst ` set (dict_set d (param_name q) (g q)) = fst ` set d \<union> {param_name q}"
  proof (cases "param_name q \<in> fst ` set d")
    case True
    then have "map fst (dict_set d (param_name q) (g q)) = map fst d"
      by (rule keys_dict_set_present)
    then have "set (map fst (dict_set d (param_name q) (g q))) = set (map fst d)"
      by simp
    with True show ?thesis
      by (auto simp only: set_map)
  next
    case False
    then have "map fst (dict_set d (param_name q) (g q)) = map fst d @ [param_name q]"
      by (rule keys_dict_set_absent)
    then have "set (map fst (dict_set d (param_name q) (g q))) = set (map fst d @ [param_name q])"
      by simp
    then show ?thesis
      by (simp only: set_map set_append list.simps(15) empty_set)
  qed
  with Cons.IH [of "dict_set d (param_name q) (g q)"] show ?case
    by auto
qed

text \<open>
  C7, as amended. For every handler, schema inference returns a schema (it never
  raises): a dict with the type \<open>object\<close>, the properties, and the key \<open>required\<close>, which
  lists exactly the parameters other than \<open>self\<close> and \<open>params\<close> that have no default, in
  order, and is left out when there is none. The properties are those of the parameters
  other than \<open>self\<close> and \<open>params\<close>, in the order of the signature (whose names are
  distinct); a handler with no other parameter, as every \<open>tool_*\<close> method, gets the
  schema with no property and no \<open>required\<close>. For each such parameter the property's
  type follows \<open>param_type\<close>, which maps \<open>str\<close>, \<open>int\<close>, \<open>float\<close>, \<open>bool\<close> to string,
  integer, number, boolean, a missing annotation to string, \<open>List[str]\<close> and \<open>List[int]\<close>
  to array with an \<open>items\<close> schema naming string or integer, and every other annotation,
  the other list types included, to string with no \<open>items\<close>; and the property has a
  description exactly when the docstring documents the parameter.
\<close>

theorem schema_inference:
  "\<exists>schema props.
       build_input_schema m = Inr schema
     \<and> schema = PDict ([(''type'', PStr ''object''), (''properties'', PDict props)] @
                  (if required_params m = [] then []
                   else [(''required'', PList (map PStr (required_params m)))]))
     \<and> required_of schema =
         (if required_params m = [] then None
          else Some (PList (map PStr (required_params m))))
     \<and> fst ` set props = param_name ` {q \<in> set (signature m). \<not> skipped q}
     \<and> property_of schema ''self'' = None \<and> property_of schema ''params'' = None
     \<and> ((\<forall>q \<in> set (signature m). skipped q) \<longrightarrow>
          schema = PDict [(''type'', PStr ''object''), (''properties'', PDict [])])
     \<and> (distinct (map param_name (signature m)) \<longrightarrow>
          map fst props = map param_name (filter (\<lambda>q. \<not> skipped q) (signature m)))
     \<and> (distinct (map param_name (signature m)) \<and> p \<in> set (signature m) \<and> \<not> skipped p \<longrightarrow>
          (\<exists>pr. property_of schema (param_name p) = Some pr
             \<and> map_of pr ''type'' = Some (PStr (fst (param_type (param_annotation p))))
             \<and> map_of pr ''items'' =
                 (case snd (param_type (param_annotation p)) of
                    None \<Rightarrow> None
                  | Some t \<Rightarrow> Some (PDict [(''type'', PStr t)]))
             \<and> (map_of pr ''description'' \<noteq> None \<longleftrightarrow> documented m (param_name p))))
     \<and> param_type A_str = (''string'', None) \<and> param_type A_int = (''integer'', None)
     \<and> param_type A_float = (''number'', None) \<and> param_type A_bool = (''boolean'', None)
     \<and> param_type A_empty = (''string'', None)
     \<and> param_type (A_List A_str) = (''array'', Some ''string'')
     \<and> param_type (A_List A_int) = (''array'', Some ''integer'')
     \<and> (a \<noteq> A_int \<and> a \<noteq> A_float \<and> a \<noteq> A_bool \<and> a \<noteq> A_List A_str \<and>
          a \<noteq> A_List A_int \<longrightarrow> param_type a = (''string'', None))"
proof -
  let ?kept = "filter (\<lambda>q. \<not> skipped q) (signature m)"
  let ?props = "foldl (\<lambda>d q. dict_set d (param_name q) (projr (param_property m q))) [] ?kept"
  let ?schema = "PDict ([(''type'', PStr ''object''), (''properties'', PDict ?props)] @
      (if required_params m = [] then []
       else [(''required'', PList (map PStr (required_params m)))]))"
  have built: "build_input_schema m = Inr ?schema"
    by (simp add: build_input_schema_def schema_loop_ok required_params_def)
  have req: "required_of ?schema =
      (if required_params m = [] then None else Some (PList (map PStr (required_params m))))"
    by (simp add: required_of_def)
  have keyset: "fst ` set ?props = param_name ` {q \<in> set (signature m). \<not> skipped q}"
    using foldl_dict_set_key_set
      [where g = "\<lambda>q. projr (param_property m q)" and d = "[]" and qs = ?kept]
    by simp
  have "''self'' \<notin> param_name ` set ?kept" and "''params'' \<notin> param_name ` set ?kept"
    by (auto simp: skipped_def)
  then have "map_of ?props ''self'' = None" and "map_of ?props ''params'' = None"
    by (simp_all add: foldl_dict_set_other)
  then have unlisted: "property_of ?schema ''self'' = None" "property_of ?schema ''params'' = None"
    by (simp_all add: property_of_def)
  have none: "?schema = PDict [(''type'', PStr ''object''), (''properties'', PDict [])]"
    if "\<forall>q \<in> set (signature m). skipped q"
  proof -
    from that have "?kept = []"
      by (simp add: filter_empty_conv)
    moreover from that have "required_params m = []"
      by (simp add: required_params_def filter_empty_conv)
    ultimately show ?thesis
      by simp
  qed
  have order: "map fst ?props = map param_name ?kept"
    if "distinct (map param_name (signature m))"
  proof -
    from that have "distinct (map param_name ?kept)"
      by (simp add: distinct_map_filter)
    then show ?thesis
      using foldl_dict_set_keys
        [where g = "\<lambda>q. projr (param_property m q)" and d = "[]" and qs = ?kept]
      by simp
  qed
  have each: "\<exists>pr. property_of ?schema (param_name p) = Some pr
      \<and> map_of pr ''type'' = Some (PStr (fst (param_type (param_annotation p))))
      \<and> map_of pr ''items'' =
          (case snd (param_type (param_annotation p)) of
             None \<Rightarrow> None
           | Some t \<Rightarrow> Some (PDict [(''type'', PStr t)]))
      \<and> (map_of pr ''description'' \<noteq> None \<longleftrightarrow> documented m (param_name p))"
    if "distinct (map param_name (signature m)) \<and> p \<in> set (signature m) \<and> \<not> skipped p"
  proof -
    obtain pr where pr: "param_property m p = Inr (PDict pr)"
      and ty: "map_of pr ''type'' = Some (PStr (fst (param_type (param_annotation p))))"
      and items: "map_of pr ''items'' =
           (case snd (param_type (param_annotation p)) of
              None \<Rightarrow> None
            | Some t \<Rightarrow> Some (PDict [(''type'', PStr t)]))"
      and descr: "map_of pr ''description'' \<noteq> None \<longleftrightarrow> documented m (param_name p)"
      using param_property_ok [of m p] by blast
    from that have "distinct (map param_name ?kept)"
      by (simp add: distinct_map_filter)
    moreover from that have "p \<in> set ?kept"
      by simp
    ultimately have "map_of ?props (param_name p) = Some (projr (param_property m p))"
      by (rule foldl_dict_set_lookup)
    then have "property_of ?schema (param_name p) = Some pr"
      using pr by (simp add: property_of_def)
    with ty items descr show ?thesis
      by blast
  qed
  have table: "param_type A_str = (''string'', None)" "param_type A_int = (''integer'', None)"
    "param_type A_float = (''number'', None)" "param_type A_bool = (''boolean'', None)"
    "param_type A_empty = (''string'', None)"
    "param_type (A_List A_str) = (''array'', Some ''string'')"
    "param_type (A_List A_int) = (''array'', Some ''integer'')"
    "a \<noteq> A_int \<and> a \<noteq> A_float \<and> a \<noteq> A_bool \<and> a \<noteq> A_List A_str \<and> a \<noteq> A_List A_int \<longrightarrow>
       param_type a = (''string'', None)"
    by (simp_all add: param_type_def)
  show ?thesis
    apply (rule exI [of _ ?schema])
    apply (rule exI [of _ ?props])
    apply (intro conjI impI)
    using built req keyset unlisted none order each table
    by blast+
qed

theorem schema_inference_witness:
  "distinct (map param_name (signature tap_method))
   \<and> \<lparr>param_name = ''x'', param_annotation = A_int, has_default = False\<rparr>
       \<in> set (signature tap_method)
   \<and> \<not> skipped \<lparr>param_name = ''x'', param_annotation = A_int, has_default = False\<rparr>
   \<and> (\<exists>schema pr.
         build_input_schema tap_method = Inr schema
       \<and> property_of schema ''x'' = Some pr
       \<and> map_of pr ''type'' = Some (PStr ''integer'')
       \<and> map_of pr ''items'' = None
       \<and> map_of pr ''description'' \<noteq> None
       \<and> required_of schema = Some (PList [PStr ''x'']))
   \<and> list_all skipped (signature tool_get_size)
   \<and> build_input_schema tool_get_size
       = Inr (PDict [(''type'', PStr ''object''), (''properties'', PDict [])])"
proof -
  let ?p = "\<lparr>param_name = ''x'', param_annotation = A_int, has_default = False\<rparr>"
  have h1: "distinct (map param_name (signature tap_method))"
    by (simp add: tap_method_def)
  have h2: "?p \<in> set (signature tap_method)"
    by (simp add: tap_method_def)
  have h3: "\<not> skipped ?p"
    by (simp add: skipped_def)
  have d: "documented tap_method ''x''"
    by (simp add: documented_def tap_method_def strip_def lstrip_def rstrip_def whitespace_def
          startswith_def)
  have r: "required_params tap_method = [''x'']"
    by (simp add: required_params_def tap_method_def skipped_def)
  from schema_inference [of tap_method ?p A_empty] h1 h2 h3 obtain schema pr where
    "build_input_schema tap_method = Inr schema"
    "property_of schema ''x'' = Some pr"
    "map_of pr ''type'' = Some (PStr (fst (param_type A_int)))"
    "map_of pr ''items'' =
       (case snd (param_type A_int) of None \<Rightarrow> None | Some t \<Rightarrow> Some (PDict [(''type'', PStr t)]))"
    "map_of pr ''description'' \<noteq> None \<longleftrightarrow> documented tap_method ''x''"
    "required_of schema =
       (if required_params tap_method = [] then None
        else Some (PList (map PStr (required_params tap_method))))"
    by auto
  then have first: "build_input_schema tap_method = Inr schema \<and> property_of schema ''x'' = Some pr
      \<and> map_of pr ''type'' = Some (PStr ''integer'') \<and> map_of pr ''items'' = None
      \<and> map_of pr ''description'' \<noteq> None \<and> required_of schema = Some (PList [PStr ''x''])"
    using d r by (simp add: param_type_def)
  have h4: "list_all skipped (signature tool_get_size)"
    by (simp add: tool_get_size_def skipped_def)
  then have "\<forall>q \<in> set (signature tool_get_size). skipped q"
    by (simp add: list_all_iff)
  with schema_inference [of tool_get_size ?p A_empty]
  have second: "build_input_schema tool_get_size
      = Inr (PDict [(''type'', PStr ''object''), (''properties'', PDict [])])"
    by auto
  from first second h1 h2 h3 h4 show ?thesis
    by blast
qed

theorem list_of_float_counterexample:
  "build_input_schema floats_method =
     Inr (PDict [(''type'', PStr ''object''),
        (''properties'', PDict [(''xs'', PDict [(''type'', PStr ''string'')])]),
        (''required'', PList [PStr ''xs''])])"
  by (simp add: floats_method_def build_input_schema_def skipped_def param_property_def
        param_type_def find_description_def)

end
